theory Spec2Isabelle
  imports Complex_Main "HOL-Library.Log_Nat"
begin

text \<open>
  A model of the test-result core of the education-centre backend: the score normalizer
  (the pre-save hook of the TestResult model), the referential checks of the create and
  update routes, the publish toggle of test results, graduates and achievements, and the
  paginated list routes. The source files are cited as they lie under \<open>src/\<close>:
  \<open>models/TestResult.js\<close> (which also holds the Achievement model, from line 98),
  \<open>models/Graduate.js\<close>, \<open>routes/achievements.js\<close>, \<open>unnamed/part_003\<close> (the
  routes of \<open>/api/test-results\<close>) and \<open>unnamed/part_002\<close> (the routes of
  \<open>/api/graduates\<close>). Express, mongoose and the document store are not part of the
  sources; what the routes rely on of them is written out where it is used.
\<close>

section \<open>JavaScript values\<close>

text \<open>
  The numeric fields of a request body and of a stored document hold a JavaScript value:
  a number, \<open>null\<close> or \<open>undefined\<close>. A JavaScript number is an IEEE 754 double:
  \<open>Num x\<close> is the finite double of value \<open>x\<close>, \<open>Infinity True\<close> is \<open>+Infinity\<close>
  and \<open>Infinity False\<close> is \<open>-Infinity\<close>. The two zeros are the one value \<open>Num 0\<close>:
  they are equal, both falsy and both written \<open>0\<close> in a JSON response, and the
  normalizer divides by no zero of either sign.
\<close>

datatype jsval = Undefined | Null | Num rat | NaN | Infinity bool

subsection \<open>Rounding to a double\<close>

text \<open>
  Every arithmetic operation yields the double nearest to the exact result, a tie going
  to the even significand. \<open>round_half_even\<close> rounds a rational to an integer in that
  way; \<open>ilog2 a\<close>, for a positive \<open>a\<close>, is the integer \<open>e\<close> with
  \<open>2 ^ e \<le> a < 2 ^ (e + 1)\<close>.
\<close>

definition round_half_even :: "rat \<Rightarrow> int" where
  "round_half_even r =
     (if r - of_int \<lfloor>r\<rfloor> < 1 / 2 then \<lfloor>r\<rfloor>
      else if 1 / 2 < r - of_int \<lfloor>r\<rfloor> then \<lfloor>r\<rfloor> + 1
      else if even \<lfloor>r\<rfloor> then \<lfloor>r\<rfloor> else \<lfloor>r\<rfloor> + 1)"

definition ilog2 :: "rat \<Rightarrow> int" where
  "ilog2 a = (if 1 \<le> a then bitlen \<lfloor>a\<rfloor> - 1 else - bitlen (\<lceil>1 / a\<rceil> - 1))"

text \<open>
  A double has a significand of 53 bits and an exponent from -1022 to 1023; below
  \<open>2 ^ -1022\<close> the doubles are the multiples of \<open>2 ^ -1074\<close>. So a positive \<open>a\<close> is
  rounded to a multiple \<open>m * 2 ^ k\<close> of the unit in its last place, where
  \<open>k = max (ilog2 a) (-1022) - 52\<close>, and the result overflows to an infinity when it
  reaches \<open>2 ^ 1024\<close>: when \<open>k > 971\<close>, or \<open>k = 971\<close> and \<open>m\<close> has been rounded up to
  \<open>2 ^ 53 = 9007199254740992\<close>. A result below half of \<open>2 ^ -1074\<close> is rounded to 0.
\<close>

definition ulp_exponent :: "rat \<Rightarrow> int" where
  "ulp_exponent a = max (ilog2 a) (- 1022) - 52"

definition double_of :: "bool \<Rightarrow> int \<Rightarrow> int \<Rightarrow> jsval" where
  "double_of positive k m =
     (if 971 < k \<or> (k = 971 \<and> 9007199254740992 \<le> m) then Infinity positive
      else Num ((if positive then 1 else - 1) * (of_int m * 2 powi k)))"

definition round_to_double :: "rat \<Rightarrow> jsval" where
  "round_to_double x =
     (if x = 0 then Num 0
      else double_of (0 < x) (ulp_exponent \<bar>x\<bar>)
             (round_half_even (\<bar>x\<bar> / 2 powi ulp_exponent \<bar>x\<bar>)))"

subsection \<open>Operators\<close>

text \<open>ToNumber: \<open>undefined\<close> becomes \<open>NaN\<close> and \<open>null\<close> becomes \<open>0\<close>.\<close>

fun to_number :: "jsval \<Rightarrow> jsval" where
  "to_number Undefined = NaN"
| "to_number Null = Num 0"
| "to_number v = v"

text \<open>ToBoolean, as \<open>!x\<close> and \<open>x || y\<close> use it: \<open>0\<close>, \<open>NaN\<close>, \<open>null\<close>
  and \<open>undefined\<close> are falsy.\<close>

fun js_truthy :: "jsval \<Rightarrow> bool" where
  "js_truthy (Num x) = (x \<noteq> 0)"
| "js_truthy (Infinity s) = True"
| "js_truthy v = False"

definition js_or :: "jsval \<Rightarrow> jsval \<Rightarrow> jsval" where
  "js_or a b = (if js_truthy a then a else b)"

text \<open>\<open>a / b\<close>, \<open>a * b\<close> and \<open>a + b\<close> on numbers: the exact result, rounded to a
  double. A division by zero does not raise: it yields an infinity or \<open>NaN\<close>.\<close>

fun div_number :: "jsval \<Rightarrow> jsval \<Rightarrow> jsval" where
  "div_number (Num x) (Num y) =
     (if y \<noteq> 0 then round_to_double (x / y) else if x = 0 then NaN else Infinity (0 < x))"
| "div_number (Num x) (Infinity s) = Num 0"
| "div_number (Infinity s) (Num y) = Infinity (s = (0 \<le> y))"
| "div_number a b = NaN"

definition js_div :: "jsval \<Rightarrow> jsval \<Rightarrow> jsval" where
  "js_div a b = div_number (to_number a) (to_number b)"

fun mul_number :: "jsval \<Rightarrow> jsval \<Rightarrow> jsval" where
  "mul_number (Num x) (Num y) = round_to_double (x * y)"
| "mul_number (Num x) (Infinity s) = (if x = 0 then NaN else Infinity (s = (0 < x)))"
| "mul_number (Infinity s) (Num y) = (if y = 0 then NaN else Infinity (s = (0 < y)))"
| "mul_number (Infinity s) (Infinity t) = Infinity (s = t)"
| "mul_number a b = NaN"

definition js_mul :: "jsval \<Rightarrow> jsval \<Rightarrow> jsval" where
  "js_mul a b = mul_number (to_number a) (to_number b)"

fun add_number :: "jsval \<Rightarrow> jsval \<Rightarrow> jsval" where
  "add_number (Num x) (Num y) = round_to_double (x + y)"
| "add_number (Num x) (Infinity s) = Infinity s"
| "add_number (Infinity s) (Num y) = Infinity s"
| "add_number (Infinity s) (Infinity t) = (if s = t then Infinity s else NaN)"
| "add_number a b = NaN"

definition js_add :: "jsval \<Rightarrow> jsval \<Rightarrow> jsval" where
  "js_add a b = add_number (to_number a) (to_number b)"

fun lt_number :: "jsval \<Rightarrow> jsval \<Rightarrow> bool" where
  "lt_number (Num x) (Num y) = (x < y)"
| "lt_number (Num x) (Infinity s) = s"
| "lt_number (Infinity s) (Num y) = (\<not> s)"
| "lt_number (Infinity s) (Infinity t) = (\<not> s \<and> t)"
| "lt_number a b = False"

definition js_lt :: "jsval \<Rightarrow> jsval \<Rightarrow> bool" where
  "js_lt a b = lt_number (to_number a) (to_number b)"

text \<open>\<open>Math.round\<close> rounds to the nearest integer, a half upwards; \<open>Math.ceil\<close>
  rounds upwards. Both leave \<open>NaN\<close> and the infinities as they are, and the integer
  they give for a double is a double, so nothing is rounded a second time.\<close>

fun round_number :: "jsval \<Rightarrow> jsval" where
  "round_number (Num x) = Num (of_int \<lfloor>x + 1 / 2\<rfloor>)"
| "round_number v = v"

definition Math_round :: "jsval \<Rightarrow> jsval" where
  "Math_round a = round_number (to_number a)"

fun ceil_number :: "jsval \<Rightarrow> jsval" where
  "ceil_number (Num x) = Num (of_int \<lceil>x\<rceil>)"
| "ceil_number v = v"

definition Math_ceil :: "jsval \<Rightarrow> jsval" where
  "Math_ceil a = ceil_number (to_number a)"




section \<open>Documents\<close>

type_synonym oid = string

text \<open>One entry of \<open>results\<close> (models/TestResult.js, the sub-schema of lines 18-43).\<close>

record result_entry =
  student :: "oid option"
  score :: jsval
  maxScore :: jsval
  percentage :: jsval
  entry_notes :: "string option"

text \<open>What TestResult, Achievement and Graduate documents share: the identifier, the two
  timestamps and the publication flag.\<close>

record entity =
  ident :: oid
  createdAt :: int
  updatedAt :: int
  isPublished :: bool

record test_result = entity +
  group :: oid
  testName :: string
  testDate :: int
  results :: "result_entry list"
  averageScore :: jsval
  totalStudents :: jsval
  description :: "string option"

record graduate = entity +
  firstName :: string
  lastName :: string
  imageUrl :: "string option"
  admissionType :: string
  field :: string
  university :: string
  admissionYear :: jsval
  previousGroup :: "oid option"
  graduationYear :: jsval
  finalScore :: jsval
  graduate_notes :: "string option"

record achievement = entity +
  studentName :: string
  age :: jsval
  school :: string
  achievement_group :: "oid option"
  achievementType :: string
  title :: string
  level :: string
  achievement_description :: string
  achievement_imageUrl :: "string option"
  achievementDate :: int
  organization :: string

text \<open>Of a Group only the identifier and the owning subject are read by the routes below;
  of a Student and a Subject only the identifier.\<close>

record group_doc =
  group_id :: oid
  group_name :: string
  subject :: oid

record store =
  subjects :: "oid list"
  groups :: "group_doc list"
  students :: "oid list"
  testResults :: "test_result list"
  graduates :: "graduate list"
  achievements :: "achievement list"

section \<open>The score normalizer: the pre-save hook of TestResult\<close>

text \<open>The body of the \<open>forEach\<close> of lines 77-81.\<close>

definition fillPercentage :: "result_entry \<Rightarrow> result_entry" where
  "fillPercentage result =
     (if \<not> js_truthy (percentage result) \<and> score result \<noteq> Undefined \<and> js_truthy (maxScore result)
      then result\<lparr>percentage := Math_round (js_mul (js_div (score result) (maxScore result)) (Num 100))\<rparr>
      else result)"

text \<open>The \<open>reduce\<close> of lines 84-86: what an entry adds to the sum (line 85), the
  callback, and the reduce itself.\<close>

definition resolvedPercentage :: "result_entry \<Rightarrow> jsval" where
  "resolvedPercentage result =
     js_or (percentage result)
       (Math_round (js_mul (js_div (score result) (js_or (maxScore result) (Num 100))) (Num 100)))"

definition addPercentage :: "jsval \<Rightarrow> result_entry \<Rightarrow> jsval" where
  "addPercentage acc result = js_add acc (resolvedPercentage result)"

definition totalPercentage :: "result_entry list \<Rightarrow> jsval" where
  "totalPercentage rs = foldl addPercentage (Num 0) rs"

text \<open>The hook of lines 71-95; \<open>now\<close> is what \<open>Date.now()\<close> returns.\<close>

definition preSave :: "int \<Rightarrow> test_result \<Rightarrow> test_result" where
  "preSave now this =
     (let this = this\<lparr>updatedAt := now\<rparr> in
      if length (results this) > 0 then
        let rs = map fillPercentage (results this) in
        this\<lparr>results := rs,
             averageScore := js_div (totalPercentage rs) (Num (of_nat (length rs))),
             totalStudents := Num (of_nat (length rs))\<rparr>
      else this\<lparr>averageScore := Num 0, totalStudents := Num 0\<rparr>)"

text \<open>The hooks of Graduate (models/Graduate.js, lines 72-75) and Achievement
  (models/TestResult.js, lines 169-172) only stamp the document.\<close>

definition touch :: "int \<Rightarrow> 'a entity_scheme \<Rightarrow> 'a entity_scheme" where
  "touch now this = this\<lparr>updatedAt := now\<rparr>"

section \<open>The persistence API\<close>

text \<open>
  Identifiers are well-formed ObjectIds: a malformed one makes the lookup throw, which
  every handler's \<open>catch\<close> turns into a 500 before anything is written; that path is
  not modelled. A collection is the list of its documents in insertion order.
\<close>

definition findById :: "oid \<Rightarrow> 'a entity_scheme list \<Rightarrow> 'a entity_scheme option" where
  "findById i coll = find (\<lambda>d. ident d = i) coll"

definition findGroup :: "oid \<Rightarrow> group_doc list \<Rightarrow> group_doc option" where
  "findGroup i coll = find (\<lambda>g. group_id g = i) coll"

definition replaceById :: "'a entity_scheme \<Rightarrow> 'a entity_scheme list \<Rightarrow> 'a entity_scheme list" where
  "replaceById d coll = map (\<lambda>x. if ident x = ident d then d else x) coll"

datatype save_error = ValidationError | DuplicateKey

text \<open>
  \<open>save()\<close> of a document: mongoose validates it, then runs the schema's pre-save hook,
  then writes. A new document is inserted (the store refuses an identifier it already
  holds); a loaded one replaces the stored document of the same identifier. Mongoose
  validates a new document whole, and of a loaded document the required paths, the paths
  read from the store and the modified ones, which is all of it again: \<open>validators\<close>
  is what the schema accepts.
\<close>

definition save_new ::
  "('a entity_scheme \<Rightarrow> bool) \<Rightarrow> (int \<Rightarrow> 'a entity_scheme \<Rightarrow> 'a entity_scheme) \<Rightarrow> int \<Rightarrow>
   'a entity_scheme \<Rightarrow> 'a entity_scheme list \<Rightarrow> save_error + 'a entity_scheme list" where
  "save_new validators hook now doc coll =
     (if \<not> validators doc then Inl ValidationError
      else if findById (ident doc) coll \<noteq> None then Inl DuplicateKey
      else Inr (coll @ [hook now doc]))"

definition save_loaded ::
  "('a entity_scheme \<Rightarrow> bool) \<Rightarrow> (int \<Rightarrow> 'a entity_scheme \<Rightarrow> 'a entity_scheme) \<Rightarrow> int \<Rightarrow>
   'a entity_scheme \<Rightarrow> 'a entity_scheme list \<Rightarrow> save_error + 'a entity_scheme list" where
  "save_loaded validators hook now doc coll =
     (if \<not> validators doc then Inl ValidationError
      else Inr (replaceById (hook now doc) coll))"

text \<open>\<open>find(query).sort({createdAt: -1}).skip(skip).limit(limit)\<close>: the store rejects a
  negative skip, reads a limit of 0 as no limit and a negative limit as its absolute
  value. Documents of equal creation time keep their insertion order.\<close>

definition sortDesc :: "'a entity_scheme list \<Rightarrow> 'a entity_scheme list" where
  "sortDesc coll = sort_key (\<lambda>d. - createdAt d) coll"

definition db_limit :: "int \<Rightarrow> 'b list \<Rightarrow> 'b list" where
  "db_limit l xs = (if l = 0 then xs else take (nat \<bar>l\<bar>) xs)"

definition findPage ::
  "('a entity_scheme \<Rightarrow> bool) \<Rightarrow> int \<Rightarrow> int \<Rightarrow> 'a entity_scheme list \<Rightarrow> 'a entity_scheme list option" where
  "findPage query skip l coll =
     (if skip < 0 then None
      else Some (db_limit l (drop (nat skip) (sortDesc (filter query coll)))))"

definition countDocuments :: "('b \<Rightarrow> bool) \<Rightarrow> 'b list \<Rightarrow> nat" where
  "countDocuments query coll = length (filter query coll)"

section \<open>Responses\<close>

record pagination =
  currentPage :: jsval
  totalPages :: jsval
  totalItems :: jsval
  itemsPerPage :: jsval
  hasNextPage :: bool
  hasPrevPage :: bool

datatype 'd reply =
    Message string
  | Document 'd
  | NoDocument
  | Listing "'d list" pagination

datatype 'd response = Response (status: nat) (payload: "'d reply")

text \<open>The object every list route answers with (unnamed/part_003, lines 52-62;
  unnamed/part_002, lines 86-96).\<close>

definition paginate :: "int \<Rightarrow> int \<Rightarrow> nat \<Rightarrow> pagination" where
  "paginate pageNumber limitNumber totalN =
     \<lparr>currentPage = Num (of_int pageNumber),
      totalPages = Math_ceil (js_div (Num (of_nat totalN)) (Num (of_int limitNumber))),
      totalItems = Num (of_nat totalN),
      itemsPerPage = Num (of_int limitNumber),
      hasNextPage = js_lt (Num (of_int pageNumber))
                      (Math_ceil (js_div (Num (of_nat totalN)) (Num (of_int limitNumber)))),
      hasPrevPage = js_lt (Num 1) (Num (of_int pageNumber))\<rparr>"

section \<open>Creating and validating a TestResult\<close>

text \<open>\<open>String.prototype.trim\<close>. A string is a sequence of characters with codes below
  256; of these, JavaScript counts as white space the tab, the line feed, the vertical
  tab, the form feed, the carriage return, the space and the no-break space (code 160).
  Text with characters beyond code 255 is not modelled.\<close>

definition isSpace :: "char \<Rightarrow> bool" where
  "isSpace c = (c \<in> set [CHR '' '', CHR 0x09, CHR 0x0A, CHR 0x0B, CHR 0x0C, CHR 0x0D, CHR 0xA0])"

definition js_trim :: "string \<Rightarrow> string" where
  "js_trim s = rev (dropWhile isSpace (rev (dropWhile isSpace s)))"

text \<open>\<open>!s\<close> for a string field of a body: it is missing or empty.\<close>

definition absent :: "string option \<Rightarrow> bool" where
  "absent s = (s = None \<or> s = Some [])"

text \<open>The validators of the schema (models/TestResult.js, lines 3-69): \<open>required\<close>
  refuses \<open>null\<close> and \<open>undefined\<close> (and, for a string, the empty string); \<open>min\<close> and
  \<open>max\<close> accept \<open>null\<close> and \<open>undefined\<close> and compare every number, so they refuse
  \<open>NaN\<close>.\<close>

fun required_ok :: "jsval \<Rightarrow> bool" where
  "required_ok Undefined = False"
| "required_ok Null = False"
| "required_ok v = True"

fun min_ok :: "rat \<Rightarrow> jsval \<Rightarrow> bool" where
  "min_ok m (Num x) = (m \<le> x)"
| "min_ok m (Infinity s) = s"
| "min_ok m NaN = False"
| "min_ok m v = True"

fun max_ok :: "rat \<Rightarrow> jsval \<Rightarrow> bool" where
  "max_ok m (Num x) = (x \<le> m)"
| "max_ok m (Infinity s) = (\<not> s)"
| "max_ok m NaN = False"
| "max_ok m v = True"

definition entry_validate :: "result_entry \<Rightarrow> bool" where
  "entry_validate e =
     (student e \<noteq> None \<and> required_ok (score e) \<and> min_ok 0 (score e) \<and> min_ok 1 (maxScore e)
      \<and> min_ok 0 (percentage e) \<and> max_ok 100 (percentage e))"

definition testResultSchema_validate :: "test_result \<Rightarrow> bool" where
  "testResultSchema_validate d =
     (testName d \<noteq> [] \<and> list_all entry_validate (results d)
      \<and> min_ok 0 (averageScore d) \<and> max_ok 100 (averageScore d))"


text \<open>Casting a body entry to a sub-document applies the schema's default for
  \<open>maxScore\<close> (only where it is \<open>undefined\<close>) and trims the notes.\<close>

definition castEntry :: "result_entry \<Rightarrow> result_entry" where
  "castEntry e =
     e\<lparr>maxScore := (if maxScore e = Undefined then Num 100 else maxScore e),
       entry_notes := map_option js_trim (entry_notes e)\<rparr>"

text \<open>\<open>new TestResult({...})\<close> as the create route calls it (unnamed/part_003,
  lines 125-132), with the schema's defaults for what the route does not pass.\<close>

definition new_TestResult ::
  "oid \<Rightarrow> int \<Rightarrow> oid \<Rightarrow> string \<Rightarrow> int \<Rightarrow> result_entry list \<Rightarrow> string option \<Rightarrow> bool \<Rightarrow> test_result" where
  "new_TestResult newId now g tn td rs desc pub =
     \<lparr>ident = newId, createdAt = now, updatedAt = now, isPublished = pub,
      group = g, testName = js_trim tn, testDate = td, results = map castEntry rs,
      averageScore = Undefined, totalStudents = Num 0, description = map_option js_trim desc\<rparr>"

text \<open>
  The JSON body of the create and update routes. \<open>body_testDate\<close> is \<open>None\<close> when the
  field is missing and \<open>Some t\<close> when \<open>new Date\<close> reads it as the instant \<open>t\<close>;
  \<open>body_results\<close> is \<open>None\<close> when the field is missing or not an array.
\<close>

record test_result_body =
  body_group :: "oid option"
  body_testName :: "string option"
  body_testDate :: "int option"
  body_results :: "result_entry list option"
  body_description :: "string option"
  body_isPublished :: "bool option"

definition required_message :: string where
  "required_message = ''Group, test name, test date, and results array are required''"

definition invalid_result_message :: string where
  "invalid_result_message = ''Each result must have a valid student and score (0 or higher)''"

definition student_not_found :: "oid \<Rightarrow> string" where
  "student_not_found sid = ''Student with ID '' @ sid @ '' not found''"

text \<open>The loop of lines 109-123 (and 169-183): the message of the first entry that
  fails, or nothing when every entry passes.\<close>

fun validateResults :: "oid list \<Rightarrow> result_entry list \<Rightarrow> string option" where
  "validateResults studs [] = None"
| "validateResults studs (result # rest) =
     (case student result of
        None \<Rightarrow> Some invalid_result_message
      | Some sid \<Rightarrow>
          if sid = [] \<or> score result = Undefined \<or> js_lt (score result) (Num 0)
          then Some invalid_result_message
          else if sid \<notin> set studs then Some (student_not_found sid)
          else validateResults studs rest)"

text \<open>POST /api/test-results (unnamed/part_003, lines 92-149). \<open>newId\<close> is the
  identifier the new document is given.\<close>

definition testResults_post ::
  "int \<Rightarrow> oid \<Rightarrow> test_result_body \<Rightarrow> store \<Rightarrow> test_result response \<times> store" where
  "testResults_post now newId body st =
     (case (body_group body, body_testName body, body_testDate body, body_results body) of
        (Some g, Some tn, Some td, Some rs) \<Rightarrow>
          if g = [] \<or> tn = [] then (Response 400 (Message required_message), st)
          else if findGroup g (groups st) = None then (Response 400 (Message ''Group not found''), st)
          else (case validateResults (students st) rs of
                  Some msg \<Rightarrow> (Response 400 (Message msg), st)
                | None \<Rightarrow>
                    (case save_new testResultSchema_validate preSave now
                            (new_TestResult newId now g tn td rs (body_description body)
                               (case body_isPublished body of None \<Rightarrow> False | Some b \<Rightarrow> b))
                            (testResults st) of
                       Inl e \<Rightarrow> (Response 500 (Message ''Error creating test result''), st)
                     | Inr coll \<Rightarrow>
                         (Response 201 (case findById newId coll of
                                          None \<Rightarrow> NoDocument | Some d \<Rightarrow> Document d),
                          st\<lparr>testResults := coll\<rparr>)))
      | _ \<Rightarrow> (Response 400 (Message required_message), st))"

section \<open>Updating a TestResult\<close>

text \<open>The update object of lines 187-195.\<close>

record test_result_update =
  set_group :: oid
  set_testName :: string
  set_testDate :: int
  set_results :: "result_entry list"
  set_description :: "string option"
  set_isPublished :: bool
  set_updatedAt :: int

text \<open>
  \<open>findByIdAndUpdate(id, update, {new: true, runValidators: true})\<close>: the update
  validators run on the update object (what they accept is a parameter), then the paths
  the update names are set on the stored document, its entries cast as above, and every
  other path is left as stored. A key whose value is \<open>undefined\<close> names no path:
  \<open>description?.trim()\<close> is \<open>undefined\<close> for a body without description
  (\<open>set_description = None\<close>), and the stored description stays. No pre-save hook
  runs: mongoose runs those for \<open>save()\<close> only.
\<close>

definition applyUpdate :: "test_result_update \<Rightarrow> test_result \<Rightarrow> test_result" where
  "applyUpdate u old =
     old\<lparr>group := set_group u, testName := set_testName u, testDate := set_testDate u,
         results := map castEntry (set_results u),
         description := (case set_description u of None \<Rightarrow> description old | Some s \<Rightarrow> Some s),
         isPublished := set_isPublished u, updatedAt := set_updatedAt u\<rparr>"

definition findByIdAndUpdate ::
  "('u \<Rightarrow> bool) \<Rightarrow> ('u \<Rightarrow> 'a entity_scheme \<Rightarrow> 'a entity_scheme) \<Rightarrow> oid \<Rightarrow> 'u \<Rightarrow>
   'a entity_scheme list \<Rightarrow> save_error + ('a entity_scheme option \<times> 'a entity_scheme list)" where
  "findByIdAndUpdate validators app i u coll =
     (if \<not> validators u then Inl ValidationError
      else (case findById i coll of
              None \<Rightarrow> Inr (None, coll)
            | Some old \<Rightarrow> Inr (Some (app u old), replaceById (app u old) coll)))"

text \<open>PUT /api/test-results/:id (unnamed/part_003, lines 152-213).\<close>

definition testResults_put ::
  "(test_result_update \<Rightarrow> bool) \<Rightarrow> int \<Rightarrow> oid \<Rightarrow> test_result_body \<Rightarrow> store \<Rightarrow>
   test_result response \<times> store" where
  "testResults_put validators now i body st =
     (case (body_group body, body_testName body, body_testDate body, body_results body) of
        (Some g, Some tn, Some td, Some rs) \<Rightarrow>
          if g = [] \<or> tn = [] then (Response 400 (Message required_message), st)
          else if findGroup g (groups st) = None then (Response 400 (Message ''Group not found''), st)
          else (case validateResults (students st) rs of
                  Some msg \<Rightarrow> (Response 400 (Message msg), st)
                | None \<Rightarrow>
                    (case findByIdAndUpdate validators applyUpdate i
                            \<lparr>set_group = g, set_testName = js_trim tn, set_testDate = td,
                             set_results = rs,
                             set_description = map_option js_trim (body_description body),
                             set_isPublished =
                               (case body_isPublished body of None \<Rightarrow> False | Some b \<Rightarrow> b),
                             set_updatedAt = now\<rparr>
                            (testResults st) of
                       Inl e \<Rightarrow> (Response 500 (Message ''Error updating test result''), st)
                     | Inr (None, coll) \<Rightarrow> (Response 404 (Message ''Test result not found''), st)
                     | Inr (Some d, coll) \<Rightarrow> (Response 200 (Document d), st\<lparr>testResults := coll\<rparr>)))
      | _ \<Rightarrow> (Response 400 (Message required_message), st))"

section \<open>The publish toggle\<close>

text \<open>The validators of the Graduate schema (models/Graduate.js, lines 3-70).
  \<open>currentYear\<close> is \<open>new Date().getFullYear()\<close> as it was when the model was
  loaded.\<close>

definition graduateSchema_validate :: "int \<Rightarrow> graduate \<Rightarrow> bool" where
  "graduateSchema_validate currentYear g =
     (firstName g \<noteq> [] \<and> lastName g \<noteq> []
      \<and> admissionType g \<in> set [''grant'', ''contract'']
      \<and> field g \<noteq> [] \<and> university g \<noteq> []
      \<and> required_ok (admissionYear g) \<and> min_ok 2000 (admissionYear g)
      \<and> max_ok (of_int (currentYear + 5)) (admissionYear g)
      \<and> min_ok 2015 (graduationYear g) \<and> max_ok (of_int currentYear) (graduationYear g)
      \<and> min_ok 0 (finalScore g) \<and> max_ok 100 (finalScore g))"

text \<open>The validators of the Achievement schema (models/TestResult.js, lines 100-167).\<close>

definition achievementSchema_validate :: "achievement \<Rightarrow> bool" where
  "achievementSchema_validate a =
     (studentName a \<noteq> []
      \<and> required_ok (age a) \<and> min_ok 5 (age a) \<and> max_ok 30 (age a)
      \<and> achievementType a \<in> set [''certificate'', ''award'', ''medal'', ''diploma'', ''other'']
      \<and> title a \<noteq> [] \<and> level a \<noteq> [])"

text \<open>
  PATCH /:id/publish is the same handler three times (unnamed/part_003, lines 216-242;
  unnamed/part_002, lines 264-289; routes/achievements.js, lines 219-236): load, flip,
  stamp, save, answer with the stored document. The three differ in the collection, the
  schema, the pre-save hook and the message for a missing document. (The achievements
  handler answers with the document that save returns instead of reading it back; that
  is the stored one.) A save that the validators refuse throws, and the handler's
  \<open>catch\<close> answers 500.
\<close>

definition patch_publish ::
  "('a entity_scheme \<Rightarrow> bool) \<Rightarrow> (int \<Rightarrow> 'a entity_scheme \<Rightarrow> 'a entity_scheme) \<Rightarrow> string \<Rightarrow>
   int \<Rightarrow> oid \<Rightarrow> 'a entity_scheme list \<Rightarrow> 'a entity_scheme response \<times> 'a entity_scheme list" where
  "patch_publish validators hook notFound now i coll =
     (case findById i coll of
        None \<Rightarrow> (Response 404 (Message notFound), coll)
      | Some doc \<Rightarrow>
          (case save_loaded validators hook now
                  (doc\<lparr>isPublished := \<not> isPublished doc, updatedAt := now\<rparr>) coll of
             Inl e \<Rightarrow> (Response 500 (Message ''Error updating publish status''), coll)
           | Inr coll' \<Rightarrow>
               (Response 200 (case findById i coll' of
                                None \<Rightarrow> NoDocument | Some d \<Rightarrow> Document d),
                coll')))"

definition testResults_patch_publish ::
  "int \<Rightarrow> oid \<Rightarrow> store \<Rightarrow> test_result response \<times> store" where
  "testResults_patch_publish now i st =
     (case patch_publish testResultSchema_validate preSave ''Test result not found'' now i
             (testResults st) of
        (r, coll) \<Rightarrow> (r, st\<lparr>testResults := coll\<rparr>))"



section \<open>Listing test results\<close>

text \<open>
  The query string of GET /api/test-results. \<open>q_page\<close> and \<open>q_limit\<close> are what
  \<open>parseInt\<close> reads (\<open>None\<close>: the parameter is not given, and the default applies; a
  parameter that is not a number is not modelled).
\<close>

record test_results_query =
  q_groupId :: "oid option"
  q_subjectId :: "oid option"
  q_published :: "string option"
  q_page :: "int option"
  q_limit :: "int option"

text \<open>The filter of lines 12-20.\<close>

definition testResults_filter :: "test_results_query \<Rightarrow> test_result \<Rightarrow> bool" where
  "testResults_filter q d =
     ((absent (q_groupId q) \<or> q_groupId q = Some (group d))
      \<and> (case q_published q of None \<Rightarrow> True | Some p \<Rightarrow> isPublished d = (p = ''true'')))"

text \<open>\<open>result.group.subject._id\<close> on a populated result: reading it throws when the
  group or its subject no longer exists (\<open>None\<close>).\<close>

definition subjectOf :: "store \<Rightarrow> test_result \<Rightarrow> oid option" where
  "subjectOf st r =
     (case findGroup (group r) (groups st) of
        None \<Rightarrow> None
      | Some g \<Rightarrow> if subject g \<in> set (subjects st) then Some (subject g) else None)"

fun filterBySubject :: "store \<Rightarrow> oid \<Rightarrow> test_result list \<Rightarrow> test_result list option" where
  "filterBySubject st sid [] = Some []"
| "filterBySubject st sid (r # rs) =
     (case subjectOf st r of
        None \<Rightarrow> None
      | Some s \<Rightarrow>
          (case filterBySubject st sid rs of
             None \<Rightarrow> None
           | Some kept \<Rightarrow> Some (if s = sid then r # kept else kept)))"

text \<open>GET /api/test-results (unnamed/part_003, lines 9-66). The documents are
  answered with their references as stored: populating them changes no field read here.\<close>

definition testResults_get :: "test_results_query \<Rightarrow> store \<Rightarrow> test_result response" where
  "testResults_get q st =
     (let pageNumber = (case q_page q of None \<Rightarrow> 1 | Some p \<Rightarrow> p);
          limitNumber = (case q_limit q of None \<Rightarrow> 10 | Some l \<Rightarrow> l);
          skip = (pageNumber - 1) * limitNumber
      in case findPage (testResults_filter q) skip limitNumber (testResults st) of
           None \<Rightarrow> Response 500 (Message ''Error fetching test results'')
         | Some found \<Rightarrow>
             (case q_subjectId q of
                Some (c # cs) \<Rightarrow>
                  (case filterBySubject st (c # cs) found of
                     None \<Rightarrow> Response 500 (Message ''Error fetching test results'')
                   | Some kept \<Rightarrow>
                       Response 200 (Listing kept (paginate pageNumber limitNumber (length kept))))
              | _ \<Rightarrow>
                  Response 200 (Listing found
                    (paginate pageNumber limitNumber
                       (countDocuments (testResults_filter q) (testResults st))))))"

section \<open>Graduates\<close>

record graduates_query =
  gq_published :: "string option"
  gq_admissionType :: "string option"
  gq_field :: "string option"
  gq_page :: "int option"
  gq_limit :: "int option"

text \<open>The filter of unnamed/part_002, lines 53-65. \<open>regExp\<close> stands for
  \<open>new RegExp(field, 'i')\<close>: \<open>None\<close> when the pattern does not compile (the
  constructor throws), else the test the pattern performs.\<close>

definition graduates_filter ::
  "(string \<Rightarrow> bool) option \<Rightarrow> graduates_query \<Rightarrow> graduate \<Rightarrow> bool" where
  "graduates_filter fieldTest q d =
     ((case gq_published q of None \<Rightarrow> True | Some p \<Rightarrow> isPublished d = (p = ''true''))
      \<and> (if \<not> absent (gq_admissionType q) \<and> gq_admissionType q \<in> {Some ''grant'', Some ''contract''}
          then Some (admissionType d) = gq_admissionType q else True)
      \<and> (case fieldTest of None \<Rightarrow> True | Some t \<Rightarrow> t (field d)))"

text \<open>GET /api/graduates (unnamed/part_002, lines 50-100).\<close>

definition graduates_get ::
  "(string \<Rightarrow> (string \<Rightarrow> bool) option) \<Rightarrow> graduates_query \<Rightarrow> store \<Rightarrow> graduate response" where
  "graduates_get regExp q st =
     (if \<not> absent (gq_field q) \<and> (case gq_field q of None \<Rightarrow> False | Some f \<Rightarrow> regExp f = None)
      then Response 500 (Message ''Error fetching graduates'')
      else
        let fieldTest = (if absent (gq_field q) then None
                         else (case gq_field q of None \<Rightarrow> None | Some f \<Rightarrow> regExp f));
            pageNumber = (case gq_page q of None \<Rightarrow> 1 | Some p \<Rightarrow> p);
            limitNumber = (case gq_limit q of None \<Rightarrow> 10 | Some l \<Rightarrow> l);
            skip = (pageNumber - 1) * limitNumber
        in case findPage (graduates_filter fieldTest q) skip limitNumber (graduates st) of
             None \<Rightarrow> Response 500 (Message ''Error fetching graduates'')
           | Some found \<Rightarrow>
               Response 200 (Listing found
                 (paginate pageNumber limitNumber
                    (countDocuments (graduates_filter fieldTest q) (graduates st)))))"

text \<open>
  The multipart body of PUT /api/graduates/:id. Text fields are strings. For the three
  numeric fields \<open>None\<close> says that the field is missing or empty, and \<open>Some v\<close> that
  \<open>parseInt\<close> (\<open>parseFloat\<close> for the final score) reads it as \<open>v\<close>. \<open>gb_file\<close>
  is the stored name of the uploaded image, if any.
\<close>

record graduate_body =
  gb_firstName :: "string option"
  gb_lastName :: "string option"
  gb_admissionType :: "string option"
  gb_field :: "string option"
  gb_university :: "string option"
  gb_admissionYear :: "jsval option"
  gb_previousGroup :: "oid option"
  gb_graduationYear :: "jsval option"
  gb_finalScore :: "jsval option"
  gb_notes :: "string option"
  gb_isPublished :: "string option"
  gb_file :: "string option"

text \<open>The shape of \<open>updateData\<close> (lines 222-239); \<open>upd_imageUrl\<close> is \<open>None\<close> when no
  file came, and \<open>upd_notes\<close> is \<open>None\<close> when \<open>notes?.trim()\<close> is \<open>undefined\<close>: such a
  key names no path, and the stored value stays. The object itself is built by
  \<open>updateData\<close> below, from the fields the required-fields check has found.\<close>

record graduate_update =
  upd_firstName :: string
  upd_lastName :: string
  upd_admissionType :: string
  upd_field :: string
  upd_university :: string
  upd_admissionYear :: jsval
  upd_previousGroup :: "oid option"
  upd_graduationYear :: jsval
  upd_finalScore :: jsval
  upd_notes :: "string option"
  upd_isPublished :: bool
  upd_updatedAt :: int
  upd_imageUrl :: "string option"

definition applyGraduateUpdate :: "graduate_update \<Rightarrow> graduate \<Rightarrow> graduate" where
  "applyGraduateUpdate u old =
     old\<lparr>firstName := upd_firstName u, lastName := upd_lastName u,
         admissionType := upd_admissionType u, field := upd_field u,
         university := upd_university u, admissionYear := upd_admissionYear u,
         previousGroup := upd_previousGroup u, graduationYear := upd_graduationYear u,
         finalScore := upd_finalScore u,
         graduate_notes := (case upd_notes u of None \<Rightarrow> graduate_notes old | Some n \<Rightarrow> Some n),
         isPublished := upd_isPublished u, updatedAt := upd_updatedAt u,
         imageUrl := (case upd_imageUrl u of None \<Rightarrow> imageUrl old | Some f \<Rightarrow> Some f)\<rparr>"

definition graduate_required_message :: string where
  "graduate_required_message =
     ''First name, last name, admission type, field, university, and admission year are required''"

definition updateData ::
  "int \<Rightarrow> string \<Rightarrow> string \<Rightarrow> string \<Rightarrow> string \<Rightarrow> string \<Rightarrow> jsval \<Rightarrow> graduate_body \<Rightarrow>
   graduate_update" where
  "updateData now fname lname atype fld uni year body =
     \<lparr>upd_firstName = js_trim fname, upd_lastName = js_trim lname,
      upd_admissionType = atype, upd_field = js_trim fld,
      upd_university = js_trim uni, upd_admissionYear = year,
      upd_previousGroup = (if absent (gb_previousGroup body) then None else gb_previousGroup body),
      upd_graduationYear = (case gb_graduationYear body of None \<Rightarrow> Null | Some y \<Rightarrow> y),
      upd_finalScore = (case gb_finalScore body of None \<Rightarrow> Null | Some f \<Rightarrow> f),
      upd_notes = map_option js_trim (gb_notes body),
      upd_isPublished = (case gb_isPublished body of None \<Rightarrow> True | Some p \<Rightarrow> p = ''true''),
      upd_updatedAt = now,
      upd_imageUrl = map_option (\<lambda>f. ''/uploads/graduates/'' @ f) (gb_file body)\<rparr>"

text \<open>PUT /api/graduates/:id (unnamed/part_002, lines 192-261).\<close>

definition graduates_put ::
  "(graduate_update \<Rightarrow> bool) \<Rightarrow> int \<Rightarrow> oid \<Rightarrow> graduate_body \<Rightarrow> store \<Rightarrow>
   graduate response \<times> store" where
  "graduates_put validators now i body st =
     (case (gb_firstName body, gb_lastName body, gb_admissionType body, gb_field body,
            gb_university body, gb_admissionYear body) of
        (Some fname, Some lname, Some atype, Some fld, Some uni, Some year) \<Rightarrow>
          if fname = [] \<or> lname = [] \<or> atype = [] \<or> fld = [] \<or> uni = []
          then (Response 400 (Message graduate_required_message), st)
          else if \<not> absent (gb_previousGroup body)
                  \<and> (case gb_previousGroup body of
                        None \<Rightarrow> False | Some g \<Rightarrow> findGroup g (groups st) = None)
          then (Response 400 (Message ''Group not found''), st)
          else
            (case findByIdAndUpdate validators applyGraduateUpdate i
                    (updateData now fname lname atype fld uni year body) (graduates st) of
               Inl e \<Rightarrow> (Response 500 (Message ''Error updating graduate''), st)
             | Inr (None, coll) \<Rightarrow> (Response 404 (Message ''Graduate not found''), st)
             | Inr (Some d, coll) \<Rightarrow> (Response 200 (Document d), st\<lparr>graduates := coll\<rparr>))
      | _ \<Rightarrow> (Response 400 (Message graduate_required_message), st))"

section \<open>Sample data\<close>

text \<open>A small store and requests against it, for the concrete runs below: one subject,
  one group of that subject, two students.\<close>

definition demo_store :: store where
  "demo_store =
     \<lparr>subjects = [''sub1''],
      groups = [\<lparr>group_id = ''g1'', group_name = ''Algebra'', subject = ''sub1''\<rparr>],
      students = [''s1'', ''s2''],
      testResults = [], graduates = [], achievements = []\<rparr>"

definition demo_entry :: "oid \<Rightarrow> jsval \<Rightarrow> jsval \<Rightarrow> jsval \<Rightarrow> result_entry" where
  "demo_entry sid sc mx pc =
     \<lparr>student = Some sid, score = sc, maxScore = mx, percentage = pc, entry_notes = None\<rparr>"

definition demo_body :: "result_entry list \<Rightarrow> bool option \<Rightarrow> test_result_body" where
  "demo_body rs pub =
     \<lparr>body_group = Some ''g1'', body_testName = Some ''Quiz'', body_testDate = Some 1000,
      body_results = Some rs, body_description = None, body_isPublished = pub\<rparr>"


text \<open>A stored test result with the given identifier, creation time, flag, entries and
  aggregates.\<close>

definition demo_result ::
  "oid \<Rightarrow> int \<Rightarrow> bool \<Rightarrow> result_entry list \<Rightarrow> jsval \<Rightarrow> jsval \<Rightarrow> test_result" where
  "demo_result i t pub rs avg n =
     \<lparr>ident = i, createdAt = t, updatedAt = t, isPublished = pub,
      group = ''g1'', testName = ''Quiz'', testDate = 1000, results = rs,
      averageScore = avg, totalStudents = n, description = None\<rparr>"

definition demo_graduate :: "oid \<Rightarrow> int \<Rightarrow> bool \<Rightarrow> graduate" where
  "demo_graduate i t pub =
     \<lparr>ident = i, createdAt = t, updatedAt = t, isPublished = pub,
      firstName = ''Zarina'', lastName = ''Abdullayeva'', imageUrl = None,
      admissionType = ''grant'', field = ''Physics'', university = ''TATU'',
      admissionYear = Num 2023, previousGroup = None, graduationYear = Num 2023,
      finalScore = Num 98, graduate_notes = None\<rparr>"

definition demo_graduate_body :: "string option \<Rightarrow> graduate_body" where
  "demo_graduate_body pub =
     \<lparr>gb_firstName = Some ''Zarina'', gb_lastName = Some ''Abdullayeva'',
      gb_admissionType = Some ''grant'', gb_field = Some ''Physics'',
      gb_university = Some ''TATU'', gb_admissionYear = Some (Num 2023),
      gb_previousGroup = None, gb_graduationYear = Some (Num 2023),
      gb_finalScore = Some (Num 98), gb_notes = None, gb_isPublished = pub, gb_file = None\<rparr>"


text \<open>A store of \<open>n\<close> test results of the one group, created at the instants
  \<open>0, \<dots>, n - 1\<close>, and a query on them.\<close>

definition demo_listed :: "nat \<Rightarrow> test_result" where
  "demo_listed k = demo_result (replicate (Suc k) CHR ''t'') (int k) True [] (Num 0) (Num 0)"

definition demo_listing_store :: "nat \<Rightarrow> store" where
  "demo_listing_store n = demo_store\<lparr>testResults := map demo_listed [0..<n]\<rparr>"

definition demo_query :: "oid option \<Rightarrow> int option \<Rightarrow> int option \<Rightarrow> test_results_query" where
  "demo_query sid p l =
     \<lparr>q_groupId = None, q_subjectId = sid, q_published = None, q_page = p, q_limit = l\<rparr>"

section \<open>Properties of the rounding\<close>

lemma ilog2_bounds:
  assumes "0 < a"
  shows "2 powi ilog2 a \<le> a" and "a < 2 powi (ilog2 a + 1)"
proof -
  have "2 powi ilog2 a \<le> a \<and> a < 2 powi (ilog2 a + 1)"
  proof (cases "1 \<le> a")
    case True
    define z where "z = \<lfloor>a\<rfloor>"
    have z: "1 \<le> z" using True by (simp add: z_def le_floor_iff)
    then have zpos: "0 < z" by simp
    have b1: "1 \<le> bitlen z" using zpos by (simp add: bitlen_alt_def)
    note bb = bitlen_bounds[OF zpos]
    have e: "ilog2 a = bitlen z - 1" using True by (simp add: ilog2_def z_def)
    have "(2::rat) powi (bitlen z - 1) = 2 ^ nat (bitlen z - 1)"
      using b1 by (simp add: power_int_def)
    also have "\<dots> = of_int (2 ^ nat (bitlen z - 1))" by simp
    also have "\<dots> \<le> of_int z" using bb by (simp only: of_int_le_iff)
    also have "\<dots> \<le> a" by (simp add: z_def)
    finally have lo: "2 powi ilog2 a \<le> a" by (simp add: e)
    have "z + 1 \<le> 2 ^ nat (bitlen z)" using bb by simp
    then have "(of_int (z + 1) :: rat) \<le> of_int (2 ^ nat (bitlen z))"
      by (simp only: of_int_le_iff)
    moreover have "a < of_int (z + 1)" unfolding z_def using floor_correct[of a] by simp
    ultimately have "a < of_int (2 ^ nat (bitlen z))" by linarith
    also have "\<dots> = 2 powi (bitlen z)" using b1 by (simp add: power_int_def)
    finally have hi: "a < 2 powi (ilog2 a + 1)" by (simp add: e)
    show ?thesis using lo hi by simp
  next
    case False
    then have a1: "a < 1" by simp
    define w where "w = \<lceil>1 / a\<rceil> - 1"
    have "1 < 1 / a" using assms a1 by (simp add: field_simps)
    then have "2 \<le> \<lceil>1 / a\<rceil>" by (simp add: le_ceiling_iff)
    then have wpos: "0 < w" by (simp add: w_def)
    note bb = bitlen_bounds[OF wpos]
    have b1: "1 \<le> bitlen w" using wpos by (simp add: bitlen_alt_def)
    have e: "ilog2 a = - bitlen w" using False by (simp add: ilog2_def w_def)
    have "1 / a \<le> of_int \<lceil>1 / a\<rceil>" by simp
    also have "\<dots> = of_int (w + 1)" by (simp add: w_def)
    also have "\<dots> \<le> of_int (2 ^ nat (bitlen w))"
      using bb by (simp only: of_int_le_iff) simp
    also have "\<dots> = 2 powi (bitlen w)" using b1 by (simp add: power_int_def)
    finally have "1 / a \<le> 2 powi (bitlen w)" .
    then have "1 \<le> 2 powi (bitlen w) * a" using assms by (simp add: field_simps)
    then have lo: "2 powi ilog2 a \<le> a"
      by (simp add: e power_int_minus field_simps)
    have "(of_int (2 ^ nat (bitlen w - 1)) :: rat) \<le> of_int w"
      using bb by (simp only: of_int_le_iff)
    also have "\<dots> < 1 / a" unfolding w_def using ceiling_correct[of "1 / a"] by simp
    finally have "2 ^ nat (bitlen w - 1) < 1 / a" by simp
    moreover have "(2::rat) powi (bitlen w - 1) = 2 ^ nat (bitlen w - 1)"
      using b1 by (simp add: power_int_def)
    ultimately have P: "2 powi (bitlen w - 1) < 1 / a" by simp
    define P where "P = (2::rat) powi (bitlen w - 1)"
    have Ppos: "0 < P" by (simp add: P_def)
    have "P < 1 / a" using P by (simp add: P_def)
    then have "a * P < 1" using assms by (simp add: field_simps)
    then have aP: "a < 1 / P" using Ppos by (simp add: field_simps)
    have "(2::rat) powi (ilog2 a + 1) = 2 powi (- (bitlen w - 1))" by (simp add: e)
    also have "\<dots> = 1 / P" unfolding P_def by (rule power_int_minus_divide)
    finally have hi: "a < 2 powi (ilog2 a + 1)" using aP by simp
    show ?thesis using lo hi by simp
  qed
  then show "2 powi ilog2 a \<le> a" and "a < 2 powi (ilog2 a + 1)" by simp_all
qed

lemma powi_less_imp_less:
  assumes "(2::rat) powi m < 2 powi n"
  shows "m < n"
proof (rule ccontr)
  assume "\<not> m < n"
  then have "n \<le> m" by simp
  then have "(2::rat) powi n \<le> 2 powi m" by (intro power_int_increasing) simp_all
  with assms show False by simp
qed

lemma ilog2_less:
  assumes "0 < a" "a < 2 powi n"
  shows "ilog2 a < n"
  using ilog2_bounds(1)[OF assms(1)] assms(2) by (intro powi_less_imp_less) linarith



lemma round_half_even_le: "r \<le> of_int N \<Longrightarrow> round_half_even r \<le> N"
proof -
  assume le: "r \<le> of_int N"
  have fl: "\<lfloor>r\<rfloor> \<le> N" using le by (simp add: floor_le_iff)
  show ?thesis
  proof (cases "r - of_int \<lfloor>r\<rfloor> < 1 / 2")
    case True
    then show ?thesis using fl by (simp add: round_half_even_def)
  next
    case False
    then have "of_int \<lfloor>r\<rfloor> < r" by linarith
    then have "of_int \<lfloor>r\<rfloor> < (of_int N :: rat)" using le by linarith
    then have "\<lfloor>r\<rfloor> < N" by (simp only: of_int_less_iff)
    then show ?thesis by (simp add: round_half_even_def)
  qed
qed

lemma round_half_even_ge: "of_int N \<le> r \<Longrightarrow> N \<le> round_half_even r"
proof -
  assume "of_int N \<le> r"
  then have "N \<le> \<lfloor>r\<rfloor>" by (simp add: le_floor_iff)
  then show ?thesis by (simp add: round_half_even_def)
qed



lemma significand_ge:
  assumes "0 < a" "- 1074 < ulp_exponent a"
  shows "2 ^ 52 \<le> round_half_even (a / 2 powi ulp_exponent a)"
proof -
  have k: "ulp_exponent a = ilog2 a - 52" using assms(2) by (simp add: ulp_exponent_def max_def split: if_splits)
  have "(2::rat) powi (52 + (ilog2 a - 52)) = 2 powi 52 * 2 powi (ilog2 a - 52)"
    by (rule power_int_add) simp
  moreover have "52 + (ilog2 a - 52) = ilog2 a" by simp
  ultimately have "(2::rat) powi 52 * 2 powi (ilog2 a - 52) = 2 powi ilog2 a"
    by (simp only:)
  also have "\<dots> \<le> a" by (rule ilog2_bounds(1)[OF assms(1)])
  finally have "(2::rat) powi 52 \<le> a / 2 powi (ilog2 a - 52)"
    by (simp add: field_simps)
  then have "of_int (2 ^ 52) \<le> a / 2 powi ulp_exponent a" by (simp add: k)
  then show ?thesis by (rule round_half_even_ge)
qed

lemma round_to_double_bounded:
  assumes bound: "\<bar>x\<bar> \<le> of_int c * 2 powi K"
      and c: "c < 2 ^ 53" and K: "- 1074 \<le> K"
      and fin: "of_int c * 2 powi K < (2::rat) powi 1024"
  shows "\<exists>y. round_to_double x = Num y \<and> \<bar>y\<bar> \<le> of_int c * 2 powi K \<and> (0 \<le> x \<longrightarrow> 0 \<le> y)
             \<and> (x \<le> 0 \<longrightarrow> y \<le> 0)"
proof (cases "x = 0")
  case True
  then show ?thesis using bound by (simp add: round_to_double_def)
next
  case False
  define a where "a = \<bar>x\<bar>"
  define k where "k = ulp_exponent a"
  define m where "m = round_half_even (a / 2 powi k)"
  have apos: "0 < a" using False by (simp add: a_def)
  have p2: "0 < (2::rat) powi j" for j by simp
  have cpos: "0 < c"
  proof (rule ccontr)
    assume "\<not> 0 < c"
    then have "(of_int c :: rat) \<le> 0" by simp
    then have "of_int c * (2::rat) powi K \<le> 0" by (intro mult_nonpos_nonneg) simp_all
    with bound apos show False by (simp add: a_def)
  qed
  have kK: "k \<le> K"
  proof (cases "ilog2 a \<le> - 1022")
    case True
    then show ?thesis using K by (simp add: k_def ulp_exponent_def)
  next
    case False
    have "(of_int c :: rat) < of_int (2 ^ 53)" using c by (simp only: of_int_less_iff)
    then have "of_int c * 2 powi K < (2::rat) ^ 53 * 2 powi K"
      by (intro mult_strict_right_mono) simp_all
    also have "\<dots> = 2 powi (K + 53)" by (simp add: power_int_add)
    finally have "a < 2 powi (K + 53)" using bound by (simp add: a_def)
    then have "ilog2 a < K + 53" by (rule ilog2_less[OF apos])
    then show ?thesis using False by (simp add: k_def ulp_exponent_def)
  qed
  define N where "N = c * 2 ^ nat (K - k)"
  have "(2::rat) powi K = 2 powi (K - k) * 2 powi k" by (simp flip: power_int_add)
  also have "(2::rat) powi (K - k) = 2 ^ nat (K - k)" using kK by (simp add: power_int_def)
  finally have BN: "of_int c * (2::rat) powi K = of_int N * 2 powi k" by (simp add: N_def)
  have "a / 2 powi k \<le> of_int N"
    using bound by (simp add: a_def BN field_simps)
  then have mN: "m \<le> N" unfolding m_def by (rule round_half_even_le)
  have "0 \<le> a / 2 powi k" using apos by simp
  then have "of_int 0 \<le> a / 2 powi k" by simp
  then have m0: "0 \<le> m" unfolding m_def by (rule round_half_even_ge)
  have "(of_int m :: rat) \<le> of_int N" using mN by (simp only: of_int_le_iff)
  then have yB: "of_int m * 2 powi k \<le> of_int c * (2::rat) powi K"
    unfolding BN by (intro mult_right_mono) simp_all
  have y0: "0 \<le> of_int m * (2::rat) powi k" using m0 by simp
  have no_overflow: "\<not> (971 < k \<or> (k = 971 \<and> 9007199254740992 \<le> m))"
  proof
    assume ov: "971 < k \<or> (k = 971 \<and> 9007199254740992 \<le> m)"
    have "(2::rat) powi 1024 \<le> of_int m * 2 powi k"
    proof (cases "971 < k")
      case True
      then have "- 1074 < ulp_exponent a" by (simp add: k_def)
      from significand_ge[OF apos this] have "2 ^ 52 \<le> m" by (simp add: m_def k_def)
      then have "(of_int (2 ^ 52) :: rat) \<le> of_int m" by (simp only: of_int_le_iff)
      then have m52: "(2::rat) powi 52 \<le> of_int m" by simp
      have "(2::rat) powi 1024 = 2 powi 52 * 2 powi 972" by (simp flip: power_int_add)
      also have "\<dots> \<le> of_int m * 2 powi 972" using m52 by (intro mult_right_mono) simp_all
      also have "\<dots> \<le> of_int m * 2 powi k"
        using True m0 by (intro mult_left_mono power_int_increasing) simp_all
      finally show ?thesis .
    next
      case False
      with ov have k: "k = 971" and "2 ^ 53 \<le> m" by simp_all
      then have "(of_int (2 ^ 53) :: rat) \<le> of_int m" by (simp only: of_int_le_iff)
      then have m53: "(2::rat) powi 53 \<le> of_int m" by simp
      have "(2::rat) powi 1024 = 2 powi 53 * 2 powi 971" by (simp flip: power_int_add)
      also have "\<dots> \<le> of_int m * 2 powi 971" using m53 by (intro mult_right_mono) simp_all
      finally show ?thesis by (simp add: k)
    qed
    with yB fin show False by linarith
  qed
  have val: "round_to_double x = Num ((if 0 < x then 1 else - 1) * (of_int m * 2 powi k))"
    using False no_overflow by (simp add: round_to_double_def double_of_def a_def k_def m_def)
  show ?thesis
  proof (cases "0 < x")
    case True
    then show ?thesis using val yB y0 by simp
  next
    case neg: False
    then have "round_to_double x = Num (- (of_int m * 2 powi k))" using val by simp
    then show ?thesis using yB y0 neg False by simp
  qed
qed

lemma round_to_double_lower:
  assumes y: "round_to_double x = Num y"
      and bound: "of_int b * 2 powi K \<le> x" and b: "0 < b" "b < 2 ^ 53" and K: "- 1074 \<le> K"
  shows "of_int b * 2 powi K \<le> y"
proof -
  have Bpos: "0 < of_int b * (2::rat) powi K" using b(1) by simp
  then have xpos: "0 < x" using bound by linarith
  define k where "k = ulp_exponent x"
  define m where "m = round_half_even (x / 2 powi k)"
  have "round_to_double x = double_of True k m"
    using xpos by (simp add: round_to_double_def k_def m_def)
  then have yv: "y = of_int m * 2 powi k"
    using y by (simp add: double_of_def split: if_splits)
  show ?thesis
  proof (cases "k \<le> K")
    case True
    define N where "N = b * 2 ^ nat (K - k)"
    have "(2::rat) powi K = 2 powi (K - k) * 2 powi k" by (simp flip: power_int_add)
    also have "(2::rat) powi (K - k) = 2 ^ nat (K - k)" using True by (simp add: power_int_def)
    finally have BN: "of_int b * (2::rat) powi K = of_int N * 2 powi k" by (simp add: N_def)
    have "of_int N \<le> x / 2 powi k" using bound by (simp add: BN field_simps)
    then have "N \<le> m" unfolding m_def by (rule round_half_even_ge)
    then have "(of_int N :: rat) \<le> of_int m" by (simp only: of_int_le_iff)
    then have "of_int N * (2::rat) powi k \<le> of_int m * 2 powi k"
      by (intro mult_right_mono) simp_all
    then show ?thesis by (simp add: BN yv)
  next
    case False
    then have kK: "K + 1 \<le> k" by simp
    then have "- 1074 < ulp_exponent x" using K by (simp add: k_def)
    from significand_ge[OF xpos this] have "2 ^ 52 \<le> m" by (simp add: m_def k_def)
    then have "(of_int (2 ^ 52) :: rat) \<le> of_int m" by (simp only: of_int_le_iff)
    then have m52: "(2::rat) powi 52 \<le> of_int m" by simp
    have "(of_int b :: rat) \<le> of_int (2 ^ 53)" using b(2) by simp
    then have "of_int b * (2::rat) powi K \<le> of_int (2 ^ 53) * 2 powi K"
      by (intro mult_right_mono) simp_all
    also have "(of_int (2 ^ 53) :: rat) = 2 powi 53" by simp
    also have "(2::rat) powi 53 * 2 powi K = 2 powi 52 * 2 powi (K + 1)"
    proof -
      have "(2::rat) powi 53 * 2 powi K = 2 powi (53 + K)" by (rule power_int_add[symmetric]) simp
      moreover have "(2::rat) powi 52 * 2 powi (K + 1) = 2 powi (52 + (K + 1))"
        by (rule power_int_add[symmetric]) simp
      moreover have "53 + K = 52 + (K + 1)" by simp
      ultimately show ?thesis by (simp only:)
    qed
    also have "\<dots> \<le> 2 powi 52 * 2 powi k"
      using kK by (intro mult_left_mono power_int_increasing) simp_all
    also have "\<dots> \<le> of_int m * 2 powi k" using m52 by (intro mult_right_mono) simp_all
    finally show ?thesis by (simp add: yv)
  qed
qed



lemma round_bounded:
  assumes "\<bar>x\<bar> \<le> of_int c * 2 powi K" and "c \<le> 2 ^ 39" and "0 \<le> K" and "K \<le> 900"
  shows "\<exists>y. round_to_double x = Num y \<and> \<bar>y\<bar> \<le> of_int c * 2 powi K \<and> (0 \<le> x \<longrightarrow> 0 \<le> y)"
proof -
  have c53: "c < 2 ^ 53" using assms(2) by simp
  have "(of_int c :: rat) \<le> of_int (2 ^ 39)" using assms(2) by (simp only: of_int_le_iff)
  then have "of_int c * (2::rat) powi K \<le> of_int (2 ^ 39) * 2 powi K"
    by (intro mult_right_mono) simp_all
  also have "(of_int (2 ^ 39) :: rat) = 2 powi 39" by simp
  also have "(2::rat) powi 39 * 2 powi K = 2 powi (39 + K)"
    by (rule power_int_add[symmetric]) simp
  also have "\<dots> < 2 powi 1024"
    using assms(4) by (intro power_int_strict_increasing) simp_all
  finally have fin: "of_int c * (2::rat) powi K < 2 powi 1024" .
  have K: "- 1074 \<le> K" using assms(3) by simp
  from round_to_double_bounded[OF assms(1) c53 K fin] show ?thesis by blast
qed

section \<open>Properties of the score normalizer\<close>

lemma fillPercentage_fields [simp]:
  "student (fillPercentage r) = student r"
  "score (fillPercentage r) = score r"
  "maxScore (fillPercentage r) = maxScore r"
  "entry_notes (fillPercentage r) = entry_notes r"
  by (simp_all add: fillPercentage_def)












lemma preSave_results: "results (preSave now this) = map fillPercentage (results this)"
  by (simp add: preSave_def Let_def)

lemma preSave_entity [simp]:
  "ident (preSave now this) = ident this"
  "isPublished (preSave now this) = isPublished this"
  "updatedAt (preSave now this) = now"
  "createdAt (preSave now this) = createdAt this"
  by (simp_all add: preSave_def Let_def)

lemma preSave_totalStudents: "totalStudents (preSave now this) = Num (of_nat (length (results this)))"
  by (simp add: preSave_def Let_def)




lemma preSave_testName [simp]: "testName (preSave now this) = testName this"
  by (simp add: preSave_def Let_def)


lemma findById_append_new:
  "findById i coll = None \<Longrightarrow> ident d = i \<Longrightarrow> findById i (coll @ [d]) = Some d"
  by (induction coll) (auto simp: findById_def)

lemma findById_ident: "findById i coll = Some d \<Longrightarrow> ident d = i"
  by (induction coll) (auto simp: findById_def split: if_splits)

lemma findById_replaceById:
  "findById i coll = Some old \<Longrightarrow> ident d = i \<Longrightarrow> findById i (replaceById d coll) = Some d"
  by (induction coll) (auto simp: findById_def replaceById_def split: if_splits)

lemma post_created:
  assumes "testResults_post now newId body st = (Response 201 p, st')"
  shows "\<exists>g tn td rs.
           body_group body = Some g \<and> body_testName body = Some tn \<and> body_testDate body = Some td
         \<and> body_results body = Some rs
         \<and> findGroup g (groups st) \<noteq> None
         \<and> validateResults (students st) rs = None
         \<and> p = Document (preSave now (new_TestResult newId now g tn td rs (body_description body)
                   (case body_isPublished body of None \<Rightarrow> False | Some b \<Rightarrow> b)))
         \<and> st' = st\<lparr>testResults := testResults st @
                   [preSave now (new_TestResult newId now g tn td rs (body_description body)
                   (case body_isPublished body of None \<Rightarrow> False | Some b \<Rightarrow> b))]\<rparr>
         \<and> findById newId (testResults st) = None"
proof -
  obtain g tn td rs where b: "body_group body = Some g" "body_testName body = Some tn"
      "body_testDate body = Some td" "body_results body = Some rs"
    using assms by (auto simp: testResults_post_def split: option.splits)
  let ?doc = "new_TestResult newId now g tn td rs (body_description body)
                   (case body_isPublished body of None \<Rightarrow> False | Some b \<Rightarrow> b)"
  have grp: "findGroup g (groups st) \<noteq> None" and val: "validateResults (students st) rs = None"
    using assms b by (auto simp: testResults_post_def split: if_splits option.splits)
  obtain coll where sv: "save_new testResultSchema_validate preSave now ?doc (testResults st) = Inr coll"
    using assms b grp val by (auto simp: testResults_post_def split: if_splits sum.splits)
  then have coll: "coll = testResults st @ [preSave now ?doc]" and fresh: "findById newId (testResults st) = None"
    by (auto simp: save_new_def new_TestResult_def split: if_splits)
  have found: "findById newId coll = Some (preSave now ?doc)"
    unfolding coll by (rule findById_append_new[OF fresh]) (simp add: new_TestResult_def)
  have "testResults_post now newId body st = (Response 201 (Document (preSave now ?doc)), st\<lparr>testResults := coll\<rparr>)"
    using assms b grp val sv found by (auto simp: testResults_post_def split: if_splits)
  then show ?thesis using assms b grp val coll fresh by auto
qed


section \<open>Evaluating concrete runs\<close>


lemmas js_arith = Math_round_def Math_ceil_def js_mul_def js_div_def js_add_def js_or_def js_lt_def


lemmas demo_defs = demo_store_def demo_entry_def demo_body_def demo_result_def


section \<open>The claims about the score normalizer\<close>







lemma fillPercentage_keeps_supplied: "js_truthy (percentage r) \<Longrightarrow> fillPercentage r = r"
  by (simp add: fillPercentage_def)


text \<open>
  C3 fails on the code. The hook tests the percentage for truth, not for presence, so a
  supplied percentage of 0 counts as missing: created with score 50 out of 100 and a
  supplied percentage of 0, the entry is persisted with the percentage 50.
\<close>

theorem C3_supplied_zero_percentage_is_overwritten:
  "testResults_post 7 ''t1''
      (demo_body [demo_entry ''s1'' (Num 50) (Num 100) (Num 0)] None) demo_store
     = (Response 201 (Document
          (demo_result ''t1'' 7 False [demo_entry ''s1'' (Num 50) (Num 100) (Num 50)] (Num 50) (Num 1))),
        demo_store\<lparr>testResults :=
          [demo_result ''t1'' 7 False [demo_entry ''s1'' (Num 50) (Num 100) (Num 50)] (Num 50) (Num 1)]\<rparr>)"
  by code_simp


section \<open>The claims about the update route\<close>

lemma testResults_put_ok:
  assumes "testResults_put validators now i body st = (Response 200 p, st')"
  shows "\<exists>g tn td rs old.
           body_group body = Some g \<and> body_testName body = Some tn \<and> body_testDate body = Some td
         \<and> body_results body = Some rs
         \<and> findById i (testResults st) = Some old
         \<and> p = Document (applyUpdate
                 \<lparr>set_group = g, set_testName = js_trim tn, set_testDate = td, set_results = rs,
                  set_description = map_option js_trim (body_description body),
                  set_isPublished = (case body_isPublished body of None \<Rightarrow> False | Some b \<Rightarrow> b),
                  set_updatedAt = now\<rparr> old)
         \<and> st' = st\<lparr>testResults := replaceById (applyUpdate
                 \<lparr>set_group = g, set_testName = js_trim tn, set_testDate = td, set_results = rs,
                  set_description = map_option js_trim (body_description body),
                  set_isPublished = (case body_isPublished body of None \<Rightarrow> False | Some b \<Rightarrow> b),
                  set_updatedAt = now\<rparr> old) (testResults st)\<rparr>"
proof -
  obtain g tn td rs where b: "body_group body = Some g" "body_testName body = Some tn"
      "body_testDate body = Some td" "body_results body = Some rs"
    using assms by (auto simp: testResults_put_def split: option.splits)
  let ?u = "\<lparr>set_group = g, set_testName = js_trim tn, set_testDate = td, set_results = rs,
                  set_description = map_option js_trim (body_description body),
                  set_isPublished = (case body_isPublished body of None \<Rightarrow> False | Some b \<Rightarrow> b),
                  set_updatedAt = now\<rparr>"
  have grp: "findGroup g (groups st) \<noteq> None" "g \<noteq> []" "tn \<noteq> []"
    and val: "validateResults (students st) rs = None"
    using assms b by (auto simp: testResults_put_def split: if_splits option.splits)
  obtain r where upd: "findByIdAndUpdate validators applyUpdate i ?u (testResults st) = Inr r"
    using assms b grp val by (auto simp: testResults_put_def split: sum.splits)
  obtain d coll where r: "r = (Some d, coll)"
    using assms b grp val upd by (cases r; cases "fst r") (auto simp: testResults_put_def)
  from upd r obtain old where old: "findById i (testResults st) = Some old"
    and d: "d = applyUpdate ?u old" and coll: "coll = replaceById (applyUpdate ?u old) (testResults st)"
    by (auto simp: findByIdAndUpdate_def split: if_splits option.splits)
  have "testResults_put validators now i body st = (Response 200 (Document d), st\<lparr>testResults := coll\<rparr>)"
    using b grp val upd r by (simp add: testResults_put_def)
  then show ?thesis using assms b old d coll by auto
qed

lemma testResults_put_keeps_aggregates:
  assumes "testResults_put validators now i body st = (Response 200 (Document d), st')"
      and "findById i (testResults st) = Some old"
  shows "averageScore d = averageScore old \<and> totalStudents d = totalStudents old
       \<and> (\<exists>rs. body_results body = Some rs \<and> results d = map castEntry rs)"
  using testResults_put_ok[OF assms(1)] assms(2) by (auto simp: applyUpdate_def)


lemma graduates_put_ok:
  assumes "graduates_put validators now i body st = (Response 200 (Document d), st')"
  shows "\<exists>old. findById i (graduates st) = Some old
         \<and> isPublished d = (case gb_isPublished body of None \<Rightarrow> True | Some p \<Rightarrow> p = ''true'')
         \<and> ident d = ident old
         \<and> st' = st\<lparr>graduates := replaceById d (graduates st)\<rparr>"
proof -
  obtain fname lname atype fld uni year where b: "gb_firstName body = Some fname"
      "gb_lastName body = Some lname" "gb_admissionType body = Some atype"
      "gb_field body = Some fld" "gb_university body = Some uni" "gb_admissionYear body = Some year"
    using assms by (auto simp: graduates_put_def split: option.splits)
  let ?u = "updateData now fname lname atype fld uni year body"
  have chk: "\<not> (fname = [] \<or> lname = [] \<or> atype = [] \<or> fld = [] \<or> uni = [])"
    using assms b by (auto simp: graduates_put_def split: if_splits)
  have grp: "\<not> (\<not> absent (gb_previousGroup body)
                  \<and> (case gb_previousGroup body of
                        None \<Rightarrow> False | Some g \<Rightarrow> findGroup g (groups st) = None))"
    using assms b chk by (auto simp: graduates_put_def split: if_splits)
  have run: "graduates_put validators now i body st =
      (case findByIdAndUpdate validators applyGraduateUpdate i ?u (graduates st) of
               Inl e \<Rightarrow> (Response 500 (Message ''Error updating graduate''), st)
             | Inr (None, coll) \<Rightarrow> (Response 404 (Message ''Graduate not found''), st)
             | Inr (Some d, coll) \<Rightarrow> (Response 200 (Document d), st\<lparr>graduates := coll\<rparr>))"
    using b chk grp by (auto simp: graduates_put_def)
  obtain coll where
    f: "findByIdAndUpdate validators applyGraduateUpdate i ?u (graduates st) = Inr (Some d, coll)"
    and s: "st' = st\<lparr>graduates := coll\<rparr>"
    using assms unfolding run by (auto split: sum.splits prod.splits option.splits)
  from f obtain old where old: "findById i (graduates st) = Some old"
    and d: "d = applyGraduateUpdate ?u old" and coll: "coll = replaceById d (graduates st)"
    by (auto simp: findByIdAndUpdate_def split: if_splits option.splits)
  show ?thesis
    using old s coll by (simp add: d applyGraduateUpdate_def updateData_def)
qed


text \<open>
  C1 fails on the code for the update route: \<open>findByIdAndUpdate\<close> runs no pre-save
  hook, so the aggregates stay as they were stored. A test result stored with one entry
  (average 80, one student) and updated to two entries of 50 and 30 percent keeps the
  average 80 and the count 1, and its entries get no percentage; the hook would have
  given the average 40 and the count 2.
\<close>

theorem C1_put_does_not_recompute_aggregates:
  "testResults_put (\<lambda>u. True) 9 ''t1''
      (demo_body [demo_entry ''s1'' (Num 50) (Num 100) Undefined,
                  demo_entry ''s2'' (Num 30) (Num 100) Undefined] (Some True))
      (demo_store\<lparr>testResults :=
         [demo_result ''t1'' 7 True [demo_entry ''s1'' (Num 80) (Num 100) (Num 80)] (Num 80) (Num 1)]\<rparr>)
     = (Response 200 (Document
          ((demo_result ''t1'' 7 True
              [demo_entry ''s1'' (Num 50) (Num 100) Undefined,
               demo_entry ''s2'' (Num 30) (Num 100) Undefined] (Num 80) (Num 1))\<lparr>updatedAt := 9\<rparr>)),
        demo_store\<lparr>testResults :=
          [(demo_result ''t1'' 7 True
              [demo_entry ''s1'' (Num 50) (Num 100) Undefined,
               demo_entry ''s2'' (Num 30) (Num 100) Undefined] (Num 80) (Num 1))\<lparr>updatedAt := 9\<rparr>]\<rparr>)
   \<and> averageScore (preSave 9 (demo_result ''t1'' 7 True
              [demo_entry ''s1'' (Num 50) (Num 100) Undefined,
               demo_entry ''s2'' (Num 30) (Num 100) Undefined] (Num 80) (Num 1))) = Num 40
   \<and> totalStudents (preSave 9 (demo_result ''t1'' 7 True
              [demo_entry ''s1'' (Num 50) (Num 100) Undefined,
               demo_entry ''s2'' (Num 30) (Num 100) Undefined] (Num 80) (Num 1))) = Num 2"
  by code_simp


lemma fill_cast_percentage:
  assumes "percentage e = Undefined \<or> percentage e = Null"
      and "score e = Num s"
      and "maxScore e = Undefined \<or> maxScore e = Num m \<and> 1 \<le> m"
  shows "percentage (fillPercentage (castEntry e)) =
           Math_round (js_mul (js_div (score e) (js_or (maxScore e) (Num 100))) (Num 100))"
  using assms by (auto simp: fillPercentage_def castEntry_def js_or_def)

lemma post_fills_missing_percentage:
  assumes "testResults_post now newId body st = (Response 201 (Document d), st')"
      and "body_results body = Some rs"
      and "i < length rs"
      and "percentage (rs ! i) = Undefined \<or> percentage (rs ! i) = Null"
      and "score (rs ! i) = Num s"
      and "maxScore (rs ! i) = Undefined \<or> maxScore (rs ! i) = Num m \<and> 1 \<le> m"
  shows "findById newId (testResults st') = Some d
       \<and> length (results d) = length rs
       \<and> percentage (results d ! i) =
           Math_round (js_mul (js_div (score (rs ! i)) (js_or (maxScore (rs ! i)) (Num 100))) (Num 100))"
proof -
  from post_created[OF assms(1)] assms(2)
  obtain g tn td desc pub where
    d: "d = preSave now (new_TestResult newId now g tn td rs desc pub)"
    and st': "st' = st\<lparr>testResults := testResults st @ [d]\<rparr>"
    and fresh: "findById newId (testResults st) = None"
    by auto
  have res: "results d = map fillPercentage (map castEntry rs)"
    by (simp add: d preSave_results new_TestResult_def)
  have ith: "results d ! i = fillPercentage (castEntry (rs ! i))"
    using assms(3) by (simp add: res)
  have "ident d = newId" by (simp add: d new_TestResult_def)
  then have found: "findById newId (testResults st') = Some d"
    using fresh by (simp add: st' findById_append_new)
  have len: "length (results d) = length rs" by (simp add: res)
  have p1: "percentage (results d ! i) =
           Math_round (js_mul (js_div (score (rs ! i)) (js_or (maxScore (rs ! i)) (Num 100))) (Num 100))"
    unfolding ith by (rule fill_cast_percentage[OF assms(4,5,6)])
  show ?thesis using found len p1 by blast
qed

text \<open>
  C4 fails on the code for the update route, through the defect of C1:
  \<open>findByIdAndUpdate\<close> runs no pre-save hook, so an entry that arrives without a
  percentage is persisted without one. A test result updated to the one entry with score
  23 out of 40 stores that entry with no percentage. Created with the same entry, it
  stores the percentage 57, which is \<open>round(23 / 40 * 100)\<close> as JavaScript computes it
  (\<open>(23 / 40) * 100\<close> is the double 57.49999999999999).
\<close>

theorem C4_put_persists_no_percentage:
  "testResults_put (\<lambda>u. True) 9 ''t1''
      (demo_body [demo_entry ''s1'' (Num 23) (Num 40) Undefined] (Some True))
      (demo_store\<lparr>testResults := [demo_result ''t1'' 7 True [] (Num 0) (Num 0)]\<rparr>)
     = (Response 200 (Document
          ((demo_result ''t1'' 7 True
              [demo_entry ''s1'' (Num 23) (Num 40) Undefined] (Num 0) (Num 0))\<lparr>updatedAt := 9\<rparr>)),
        demo_store\<lparr>testResults :=
          [(demo_result ''t1'' 7 True
              [demo_entry ''s1'' (Num 23) (Num 40) Undefined] (Num 0) (Num 0))\<lparr>updatedAt := 9\<rparr>]\<rparr>)
   \<and> Math_round (js_mul (js_div (Num 23) (js_or (Num 40) (Num 100))) (Num 100)) = Num 57
   \<and> testResults_post 7 ''t2''
        (demo_body [demo_entry ''s1'' (Num 23) (Num 40) Undefined] (Some True)) demo_store
     = (Response 201 (Document
          (demo_result ''t2'' 7 True [demo_entry ''s1'' (Num 23) (Num 40) (Num 57)] (Num 57) (Num 1))),
        demo_store\<lparr>testResults :=
          [demo_result ''t2'' 7 True [demo_entry ''s1'' (Num 23) (Num 40) (Num 57)] (Num 57) (Num 1)]\<rparr>)"
  by code_simp

text \<open>
  C5 fails on the code in two ways. Through the defect of C1, a document written by the
  update route keeps the aggregates it had: a test result stored with one entry (average
  80, one student) and updated to an empty \<open>results\<close> keeps the average 80 and the
  count 1, where the claim says 0 and 0. And through the truth test of C3, which the
  sum of line 85 repeats, a supplied percentage of 0 is not what the average counts: an
  entry created with score 7, \<open>maxScore\<close> \<open>null\<close> and percentage 0 is stored with the
  percentage 0 and the document with the average 7.
\<close>

theorem C5_stored_average_is_not_the_mean:
  "testResults_put (\<lambda>u. True) 9 ''t1'' (demo_body [] (Some True))
      (demo_store\<lparr>testResults :=
         [demo_result ''t1'' 7 True [demo_entry ''s1'' (Num 80) (Num 100) (Num 80)] (Num 80) (Num 1)]\<rparr>)
     = (Response 200 (Document ((demo_result ''t1'' 7 True [] (Num 80) (Num 1))\<lparr>updatedAt := 9\<rparr>)),
        demo_store\<lparr>testResults :=
          [(demo_result ''t1'' 7 True [] (Num 80) (Num 1))\<lparr>updatedAt := 9\<rparr>]\<rparr>)
   \<and> testResults_post 7 ''t2''
        (demo_body [demo_entry ''s1'' (Num 7) Null (Num 0)] None) demo_store
     = (Response 201 (Document
          (demo_result ''t2'' 7 False [demo_entry ''s1'' (Num 7) Null (Num 0)] (Num 7) (Num 1))),
        demo_store\<lparr>testResults :=
          [demo_result ''t2'' 7 False [demo_entry ''s1'' (Num 7) Null (Num 0)] (Num 7) (Num 1)]\<rparr>)"
  by code_simp

text \<open>
  C10. A successful PUT whose body has no \<open>isPublished\<close> stores the creation default,
  whatever was stored before: \<open>false\<close> for a test result, \<open>true\<close> for a graduate.
\<close>

theorem C10_put_without_flag_resets_isPublished:
  "(testResults_put v now i body st = (Response 200 (Document d), st') \<longrightarrow>
      body_isPublished body = None \<longrightarrow>
      isPublished d = False \<and> findById i (testResults st') = Some d)
   \<and> (graduates_put w now j gbody st = (Response 200 (Document g), st'') \<longrightarrow>
      gb_isPublished gbody = None \<longrightarrow>
      isPublished g = True \<and> findById j (graduates st'') = Some g)"
proof (intro conjI impI)
  assume put: "testResults_put v now i body st = (Response 200 (Document d), st')"
    and none: "body_isPublished body = None"
  from testResults_put_ok[OF put] none obtain u old where
    old: "findById i (testResults st) = Some old" and d: "d = applyUpdate u old"
    and u: "set_isPublished u = False"
    and st': "st' = st\<lparr>testResults := replaceById d (testResults st)\<rparr>"
    by auto
  show "isPublished d = False" by (simp add: d applyUpdate_def u)
  have "ident d = i" using findById_ident[OF old] by (simp add: d applyUpdate_def)
  then show "findById i (testResults st') = Some d"
    using old by (simp add: st' findById_replaceById)
next
  assume put: "graduates_put w now j gbody st = (Response 200 (Document g), st'')"
    and none: "gb_isPublished gbody = None"
  from graduates_put_ok[OF put] none obtain old where
    old: "findById j (graduates st) = Some old" and pub: "isPublished g = True"
    and idg: "ident g = ident old"
    and st'': "st'' = st\<lparr>graduates := replaceById g (graduates st)\<rparr>"
    by auto
  show "isPublished g = True" by (rule pub)
  have "ident g = j" using findById_ident[OF old] idg by simp
  then show "findById j (graduates st'') = Some g"
    using old by (simp add: st'' findById_replaceById)
qed


theorem C10_witness:
  "fst (testResults_put (\<lambda>u. True) 9 ''t1''
      (demo_body [demo_entry ''s1'' (Num 80) (Num 100) (Num 80)] None)
      (demo_store\<lparr>testResults :=
         [demo_result ''t1'' 7 True [demo_entry ''s1'' (Num 80) (Num 100) (Num 80)] (Num 80) (Num 1)]\<rparr>))
     = Response 200 (Document
          ((demo_result ''t1'' 7 False
              [demo_entry ''s1'' (Num 80) (Num 100) (Num 80)] (Num 80) (Num 1))\<lparr>updatedAt := 9\<rparr>))
   \<and> isPublished ((demo_result ''t1'' 7 False
              [demo_entry ''s1'' (Num 80) (Num 100) (Num 80)] (Num 80) (Num 1))\<lparr>updatedAt := 9\<rparr>) = False
   \<and> fst (graduates_put (\<lambda>u. True) 9 ''gr1'' (demo_graduate_body None)
      (demo_store\<lparr>graduates := [demo_graduate ''gr1'' 7 False]\<rparr>))
     = Response 200 (Document ((demo_graduate ''gr1'' 7 True)\<lparr>updatedAt := 9\<rparr>))
   \<and> isPublished ((demo_graduate ''gr1'' 7 True)\<lparr>updatedAt := 9\<rparr>) = True"
proof -
  let ?st = "demo_store\<lparr>testResults :=
         [demo_result ''t1'' 7 True [demo_entry ''s1'' (Num 80) (Num 100) (Num 80)] (Num 80) (Num 1)]\<rparr>"
  let ?d = "(demo_result ''t1'' 7 False
              [demo_entry ''s1'' (Num 80) (Num 100) (Num 80)] (Num 80) (Num 1))\<lparr>updatedAt := 9\<rparr>"
  let ?body = "demo_body [demo_entry ''s1'' (Num 80) (Num 100) (Num 80)] None"
  let ?sg = "demo_store\<lparr>graduates := [demo_graduate ''gr1'' 7 False]\<rparr>"
  let ?g = "(demo_graduate ''gr1'' 7 True)\<lparr>updatedAt := 9\<rparr>"
  have run1: "testResults_put (\<lambda>u. True) 9 ''t1'' ?body ?st
                = (Response 200 (Document ?d), demo_store\<lparr>testResults := [?d]\<rparr>)"
    by (simp add: testResults_put_def findByIdAndUpdate_def applyUpdate_def replaceById_def
          findGroup_def findById_def castEntry_def js_trim_def isSpace_def demo_defs js_arith)
  have run2: "graduates_put (\<lambda>u. True) 9 ''gr1'' (demo_graduate_body None) ?sg
                = (Response 200 (Document ?g), demo_store\<lparr>graduates := [?g]\<rparr>)"
    by (simp add: graduates_put_def updateData_def findByIdAndUpdate_def applyGraduateUpdate_def
          replaceById_def findById_def absent_def js_trim_def isSpace_def demo_defs
          demo_graduate_def demo_graduate_body_def)
  have none1: "body_isPublished ?body = None" by (simp add: demo_body_def)
  have none2: "gb_isPublished (demo_graduate_body None) = None" by (simp add: demo_graduate_body_def)
  note tr = C10_put_without_flag_resets_isPublished[THEN conjunct1, THEN mp, OF run1, THEN mp, OF none1]
  note gr = C10_put_without_flag_resets_isPublished[THEN conjunct2, THEN mp, OF run2, THEN mp, OF none2]
  from tr have a: "isPublished ?d = False" by (rule conjunct1)
  from gr have b: "isPublished ?g = True" by (rule conjunct1)
  show ?thesis using run1 run2 a b by simp
qed

section \<open>The claim about the publish toggle\<close>

lemma touch_entity [simp]:
  "ident (touch now this) = ident this"
  "isPublished (touch now this) = isPublished this"
  "updatedAt (touch now this) = now"
  by (simp_all add: touch_def)

lemma validate_ignores_flags [simp]:
  "testResultSchema_validate (d\<lparr>isPublished := b, updatedAt := t\<rparr>) = testResultSchema_validate d"
  "graduateSchema_validate year (g\<lparr>isPublished := b, updatedAt := t\<rparr>) = graduateSchema_validate year g"
  "achievementSchema_validate (a\<lparr>isPublished := b, updatedAt := t\<rparr>) = achievementSchema_validate a"
  by (simp_all add: testResultSchema_validate_def graduateSchema_validate_def
        achievementSchema_validate_def)

lemma validate_touch [simp]:
  "graduateSchema_validate year (touch now g) = graduateSchema_validate year g"
  "achievementSchema_validate (touch now a) = achievementSchema_validate a"
  by (simp_all add: graduateSchema_validate_def achievementSchema_validate_def touch_def)



















lemma second_toggle_refused_after_recompute:
  "testResults_patch_publish 9 ''t1''
      (demo_store\<lparr>testResults :=
         [demo_result ''t1'' 7 False [demo_entry ''s1'' (Num 150) (Num 100) Undefined] (Num 80) (Num 1)]\<rparr>)
     = (Response 200 (Document
          ((demo_result ''t1'' 7 True
              [demo_entry ''s1'' (Num 150) (Num 100) (Num 150)] (Num 150) (Num 1))\<lparr>updatedAt := 9\<rparr>)),
        demo_store\<lparr>testResults :=
          [(demo_result ''t1'' 7 True
              [demo_entry ''s1'' (Num 150) (Num 100) (Num 150)] (Num 150) (Num 1))\<lparr>updatedAt := 9\<rparr>]\<rparr>)
   \<and> testResults_patch_publish 11 ''t1''
        (demo_store\<lparr>testResults :=
          [(demo_result ''t1'' 7 True
              [demo_entry ''s1'' (Num 150) (Num 100) (Num 150)] (Num 150) (Num 1))\<lparr>updatedAt := 9\<rparr>]\<rparr>)
     = (Response 500 (Message ''Error updating publish status''),
        demo_store\<lparr>testResults :=
          [(demo_result ''t1'' 7 True
              [demo_entry ''s1'' (Num 150) (Num 100) (Num 150)] (Num 150) (Num 1))\<lparr>updatedAt := 9\<rparr>]\<rparr>)"
  by code_simp



section \<open>The claim about the referential validator\<close>




lemma testResults_post_writes_only_on_success:
  "status (fst (testResults_post now newId body st)) \<noteq> 201 \<Longrightarrow>
     snd (testResults_post now newId body st) = st"
  by (auto simp: testResults_post_def split: option.splits if_splits sum.splits)




section \<open>The claims about the list routes\<close>

lemma ceiling_of_rounded_quotient:
  assumes l: "1 \<le> l" "l \<le> 2 ^ 26" and n: "n < 2 ^ 26"
  shows "Math_ceil (js_div (Num (of_nat n)) (Num (of_int l)))
           = Num (of_int \<lceil>(of_nat n :: rat) / of_int l\<rceil>)"
proof -
  define x where "x = (of_nat n :: rat) / of_int l"
  define c where "c = \<lceil>x\<rceil>"
  have lpos: "(0::rat) < of_int l" using l(1) by simp
  have x0: "0 \<le> x" using lpos by (simp add: x_def)
  have xn: "x \<le> of_nat n"
  proof -
    have "(of_nat n :: rat) / of_int l \<le> of_nat n / 1"
      using l(1) by (intro divide_left_mono) simp_all
    then show ?thesis by (simp add: x_def)
  qed
  have c0: "0 \<le> c" using x0 unfolding c_def by (simp add: le_ceiling_iff)
  have cn: "c \<le> int n" using xn unfolding c_def by (simp add: ceiling_le_iff)
  have c26: "c < 2 ^ 26" using cn n by simp
  have "\<bar>x\<bar> \<le> of_int c * 2 powi 0" using x0 unfolding c_def by simp
  from round_bounded[OF this] c26 obtain y where
    y: "round_to_double x = Num y" "\<bar>y\<bar> \<le> of_int c" "0 \<le> y"
    using x0 by auto
  have up: "\<lceil>y\<rceil> \<le> c" using y(2) by (simp add: ceiling_le_iff)
  have lo: "c \<le> \<lceil>y\<rceil>"
  proof (cases "c = 0")
    case True
    then show ?thesis using y(3) by (simp add: le_ceiling_iff)
  next
    case False
    then have c1: "1 \<le> c" using c0 by simp
    have "of_int (c - 1) < x" unfolding c_def using ceiling_correct[of x] by simp
    then have "of_int (c - 1) * of_int l < (of_nat n :: rat)"
      using lpos by (simp add: x_def field_simps)
    then have "(of_int ((c - 1) * l) :: rat) < of_int (int n)" by simp
    then have "(c - 1) * l < int n" by (simp only: of_int_less_iff)
    then have "(c - 1) * l + 1 \<le> int n" by simp
    then have "(of_int ((c - 1) * l + 1) :: rat) \<le> of_int (int n)" by (simp only: of_int_le_iff)
    then have "of_int (c - 1) * of_int l + 1 \<le> (of_nat n :: rat)" by simp
    then have "(of_int (c - 1) * of_int l + 1) / of_int l \<le> (of_nat n :: rat) / of_int l"
      using lpos by (intro divide_right_mono) simp_all
    moreover have "(of_int (c - 1) * of_int l + 1) / (of_int l :: rat)
                     = of_int (c - 1) + 1 / of_int l"
      using lpos by (simp add: add_divide_distrib)
    ultimately have "of_int (c - 1) + 1 / of_int l \<le> x"
      by (simp only: x_def)
    moreover have "(1::rat) / 2 ^ 26 \<le> 1 / of_int l"
    proof -
      have "(of_int l :: rat) \<le> of_int (2 ^ 26)" using l(2) by (simp only: of_int_le_iff)
      then show ?thesis using lpos by (intro divide_left_mono) simp_all
    qed
    ultimately have "of_int (c - 1) + 1 / 2 ^ 26 \<le> x" by linarith
    moreover have "of_int ((c - 1) * 2 ^ 26 + 1) * 2 powi (- 26) = of_int (c - 1) + (1::rat) / 2 ^ 26"
      by (simp add: power_int_minus field_simps)
    ultimately have B: "of_int ((c - 1) * 2 ^ 26 + 1) * 2 powi (- 26) \<le> x" by simp
    have b0: "0 < (c - 1) * 2 ^ 26 + 1" using c1 by simp
    have "(c - 1) * 2 ^ 26 + 1 \<le> (2 ^ 26 - 1) * 2 ^ 26 + 1"
      using c26 by (intro add_right_mono mult_right_mono) simp_all
    then have b53: "(c - 1) * 2 ^ 26 + 1 < 2 ^ 53" by simp
    from round_to_double_lower[OF y(1) B b0 b53]
    have "of_int ((c - 1) * 2 ^ 26 + 1) * 2 powi (- 26) \<le> y" by simp
    then have "of_int (c - 1) + (1::rat) / 2 ^ 26 \<le> y"
      by (simp add: power_int_minus field_simps)
    then have "of_int (c - 1) < y" by simp
    then have "c - 1 < \<lceil>y\<rceil>" by (simp only: less_ceiling_iff)
    then show ?thesis by simp
  qed
  have "\<lceil>y\<rceil> = c" using up lo by simp
  moreover have "js_div (Num (of_nat n)) (Num (of_int l)) = Num y"
    using l(1) y(1) by (simp add: js_div_def x_def)
  ultimately show ?thesis by (simp add: Math_ceil_def c_def x_def)
qed

lemma paginate_values:
  assumes "1 \<le> l" and "l \<le> 2 ^ 26" and "n < 2 ^ 26"
  shows "paginate p l n =
     \<lparr>currentPage = Num (of_int p),
      totalPages = Num (of_int \<lceil>(of_nat n :: rat) / of_int l\<rceil>),
      totalItems = Num (of_nat n),
      itemsPerPage = Num (of_int l),
      hasNextPage = (p < \<lceil>(of_nat n :: rat) / of_int l\<rceil>),
      hasPrevPage = (1 < p)\<rparr>"
  by (simp add: paginate_def ceiling_of_rounded_quotient[OF assms] js_lt_def)

lemma findPage_slice:
  assumes "1 \<le> p" "1 \<le> l"
  shows "findPage query ((p - 1) * l) l coll =
           Some (take (nat l) (drop (nat ((p - 1) * l)) (sortDesc (filter query coll))))"
proof -
  have "0 \<le> (p - 1) * l" using assms by (intro mult_nonneg_nonneg) simp_all
  then have nn: "\<not> (p - 1) * l < 0" by linarith
  show ?thesis
    unfolding findPage_def db_limit_def by (subst if_not_P[OF nn]) (use assms in simp)
qed

lemma sortDesc_descending: "sorted (map (\<lambda>d. - createdAt d) (sortDesc coll))"
  by (simp add: sortDesc_def)

lemma sortDesc_same_documents: "set (sortDesc coll) = set coll \<and> length (sortDesc coll) = length coll"
  by (simp add: sortDesc_def)

lemma page_slice_length:
  assumes "1 \<le> p" "1 \<le> l"
  shows "length (take (nat l) (drop (nat ((p - 1) * l)) (sortDesc (filter query coll))))
           = min (nat l) (countDocuments query coll - nat ((p - 1) * l))"
  by (simp add: sortDesc_def countDocuments_def min.commute)

lemma page_slice_descending:
  "sorted (map (\<lambda>d. - createdAt d) (take n (drop k (sortDesc coll))))"
  using sortDesc_descending[of coll]
  by (simp add: sorted_wrt_take sorted_wrt_drop take_map[symmetric] drop_map[symmetric])

lemma page_slice_matches:
  "d \<in> set (take n (drop k (sortDesc (filter query coll)))) \<Longrightarrow> d \<in> set coll \<and> query d"
proof -
  assume "d \<in> set (take n (drop k (sortDesc (filter query coll))))"
  then have "d \<in> set (sortDesc (filter query coll))"
    by (meson in_set_dropD in_set_takeD)
  then have "d \<in> set (filter query coll)"
    by (simp add: sortDesc_def)
  then show ?thesis by simp
qed

lemma testResults_get_paginates:
  assumes "absent (q_subjectId q)"
      and "(case q_page q of None \<Rightarrow> 1 | Some p \<Rightarrow> p) = p" and "1 \<le> p"
      and "(case q_limit q of None \<Rightarrow> 10 | Some l \<Rightarrow> l) = l" and "1 \<le> l"
  shows "testResults_get q st =
           Response 200 (Listing
             (take (nat l) (drop (nat ((p - 1) * l))
                (sortDesc (filter (testResults_filter q) (testResults st)))))
             (paginate p l (countDocuments (testResults_filter q) (testResults st))))"
  using assms(1,2,4) findPage_slice[OF assms(3,5), of "testResults_filter q" "testResults st"]
  by (auto simp: testResults_get_def Let_def absent_def split: option.splits list.splits)

lemma graduates_get_paginates:
  assumes "absent (gq_field q) \<or> (\<exists>f t. gq_field q = Some f \<and> regExp f = Some t)"
      and "(case gq_page q of None \<Rightarrow> 1 | Some p \<Rightarrow> p) = p" and "1 \<le> p"
      and "(case gq_limit q of None \<Rightarrow> 10 | Some l \<Rightarrow> l) = l" and "1 \<le> l"
      and "fieldTest = (if absent (gq_field q) then None
                         else (case gq_field q of None \<Rightarrow> None | Some f \<Rightarrow> regExp f))"
  shows "graduates_get regExp q st =
           Response 200 (Listing
             (take (nat l) (drop (nat ((p - 1) * l))
                (sortDesc (filter (graduates_filter fieldTest q) (graduates st)))))
             (paginate p l (countDocuments (graduates_filter fieldTest q) (graduates st))))"
proof -
  have ok: "\<not> (\<not> absent (gq_field q) \<and> (case gq_field q of None \<Rightarrow> False | Some f \<Rightarrow> regExp f = None))"
    using assms(1) by auto
  show ?thesis
    using ok assms(2,4,6) findPage_slice[OF assms(3,5), of "graduates_filter fieldTest q" "graduates st"]
    by (simp add: graduates_get_def Let_def)
qed

lemma pagination_example:
  assumes "countDocuments query coll = 25"
  shows "length (take (nat 10) (drop (nat ((3 - 1) * 10)) (sortDesc (filter query coll)))) = 5"
    and "paginate 3 10 (countDocuments query coll) =
           \<lparr>currentPage = Num 3, totalPages = Num 3, totalItems = Num 25, itemsPerPage = Num 10,
            hasNextPage = False, hasPrevPage = True\<rparr>"
proof -
  show "length (take (nat 10) (drop (nat ((3 - 1) * 10)) (sortDesc (filter query coll)))) = 5"
    using page_slice_length[of 3 10 query coll] assms by simp
  have "paginate 3 10 25 =
           \<lparr>currentPage = Num 3, totalPages = Num 3, totalItems = Num 25, itemsPerPage = Num 10,
            hasNextPage = False, hasPrevPage = True\<rparr>"
    by code_simp
  then show "paginate 3 10 (countDocuments query coll) =
           \<lparr>currentPage = Num 3, totalPages = Num 3, totalItems = Num 25, itemsPerPage = Num 10,
            hasNextPage = False, hasPrevPage = True\<rparr>"
    by (simp only: assms)
qed

lemma testResults_get_subject_total:
  assumes "q_subjectId q = Some sid" "sid \<noteq> []"
      and "testResults_get q st = Response 200 (Listing data pag)"
  shows "totalItems pag = Num (of_nat (length data))"
  using assms
  by (auto simp: testResults_get_def Let_def paginate_def split: option.splits list.splits)


text \<open>
  C2 fails on the code. With a \<open>subjectId\<close> the route filters the page it has already
  cut and then sets the total to the length of what is left (lines 43-50). Three stored
  test results of subject \<open>sub1\<close>, asked for with \<open>limit=2\<close>: the answer holds two of
  them and says \<open>totalItems = 2\<close>, \<open>hasNextPage = false\<close>, while three stored results
  match the filter.
\<close>

theorem C2_total_is_the_length_of_the_filtered_page:
  "testResults_get (demo_query (Some ''sub1'') None (Some 2)) (demo_listing_store 3)
     = Response 200 (Listing [demo_listed 2, demo_listed 1]
         \<lparr>currentPage = Num 1, totalPages = Num 1, totalItems = Num 2, itemsPerPage = Num 2,
          hasNextPage = False, hasPrevPage = False\<rparr>)
   \<and> countDocuments
        (\<lambda>d. testResults_filter (demo_query (Some ''sub1'') None (Some 2)) d
              \<and> subjectOf (demo_listing_store 3) d = Some ''sub1'')
        (testResults (demo_listing_store 3)) = 3"
  by code_simp

text \<open>
  C8 fails on the code for the same reason as C2, on the claim's own example: 25 stored
  test results of subject \<open>sub1\<close>, asked for with \<open>subjectId=sub1\<close>, \<open>limit=10\<close>,
  \<open>page=3\<close>. The page has 5 documents, and the answer says \<open>totalItems = 5\<close> and
  \<open>totalPages = 1\<close>, not 25 and 3. Without a \<open>subjectId\<close>, and for graduates, the route
  answers as the claim says (\<open>testResults_get_paginates\<close>, \<open>graduates_get_paginates\<close>,
  \<open>paginate_values\<close>, \<open>pagination_example\<close>).
\<close>

theorem C8_subject_filter_breaks_the_pagination_example:
  "testResults_get (demo_query (Some ''sub1'') (Some 3) (Some 10)) (demo_listing_store 25)
     = Response 200 (Listing (map demo_listed [4, 3, 2, 1, 0])
         \<lparr>currentPage = Num 3, totalPages = Num 1, totalItems = Num 5, itemsPerPage = Num 10,
          hasNextPage = False, hasPrevPage = True\<rparr>)
   \<and> countDocuments
        (\<lambda>d. testResults_filter (demo_query (Some ''sub1'') (Some 3) (Some 10)) d
              \<and> subjectOf (demo_listing_store 25) d = Some ''sub1'')
        (testResults (demo_listing_store 25)) = 25"
  by code_simp

end
